theory Spec2Isabelle
  imports Complex_Main "HOL-Library.Sublist" "HOL-Library.AList"
begin

section \<open>Filename helper (watchdog.py and analyze.py)\<close>

text \<open>
  \<^verbatim>\<open>re.sub(r'[<>:"/\\|?*]', '_', name)\<close> replaces every character of the class by an
  underscore. The class holds the nine characters \<^verbatim>\<open>< > : " / \ | ? *\<close>. A Python string
  is modelled as a \<^typ>\<open>string\<close>; the substitution works character by character.
\<close>

definition illegal_chars :: "char set" where
  "illegal_chars = {CHR ''<'', CHR ''>'', CHR '':'', CHR 0x22, CHR ''/'', CHR 0x5C,
                    CHR ''|'', CHR ''?'', CHR ''*''}"

text \<open>The copy in watchdog.py (lines 34-37).\<close>

definition sanitize_filename :: "string \<Rightarrow> string" where
  "sanitize_filename name = map (\<lambda>c. if c \<in> illegal_chars then CHR ''_'' else c) name"

text \<open>The copy in analyze.py (lines 11-14).\<close>

definition analyze_sanitize_filename :: "string \<Rightarrow> string" where
  "analyze_sanitize_filename name = map (\<lambda>c. if c \<in> illegal_chars then CHR ''_'' else c) name"

section \<open>Python values and JSON bodies\<close>

text \<open>
  The values stored in the analysis record: \<^verbatim>\<open>None\<close>, booleans, integers and strings.
  A Python dict with string keys is an association list; \<^verbatim>\<open>d.get(k, default)\<close> is
  \<open>dict_get\<close>, \<^verbatim>\<open>d[k] = v\<close> is \<open>AList.update\<close>.
\<close>

datatype pyval = PNone | PBool bool | PInt int | PStr string

type_synonym pydict = "(string \<times> pyval) list"

definition dict_get :: "pydict \<Rightarrow> string \<Rightarrow> pyval \<Rightarrow> pyval" where
  "dict_get d k dflt = (case map_of d k of None \<Rightarrow> dflt | Some v \<Rightarrow> v)"

text \<open>
  The JSON bodies of the five endpoints, with the fields the code reads. A field that the
  code reads with \<^verbatim>\<open>.get\<close> is an option (\<open>None\<close>: key absent or null).
\<close>

record stargazer =
  login :: string

record repo =
  r_name :: string
  r_full_name :: string
  r_description :: "string option"

record activity =
  a_type :: "string option"
  a_created_at :: "string option"
  a_repo_name :: "string option"

datatype payload =
    StargazerList "stargazer list"
  | RepoList "repo list"
  | EventList "activity list"
  | UserObject pydict

text \<open>
  What lines 306-318 of watchdog.py find in the \<^verbatim>\<open>Link\<close> header of a response:
  no \<^verbatim>\<open>rel="last"\<close> link, a last link whose page number is \<open>Some n\<close> or does not
  parse as an integer (\<open>None\<close>, the \<^verbatim>\<open>ValueError\<close> branch), or a last link
  without \<^verbatim>\<open>&page=\<close>, where the index \<^verbatim>\<open>[1]\<close> raises \<^verbatim>\<open>IndexError\<close>.
\<close>

datatype link_last = NoLastLink | LastPage "int option" | LastWithoutPage

record response =
  status_code :: int
  resp_text :: string
  remaining_hdr :: "int option"
  reset_hdr :: "int option"
  has_next :: bool
  last_link :: link_last
  json :: payload

text \<open>\<^verbatim>\<open>requests.get\<close> returns a response or raises a \<^verbatim>\<open>RequestException\<close> without one.\<close>

datatype http_result = ConnectionError | Response response

section \<open>The world: responses to come, the clock, and what was done\<close>

text \<open>
  The program is sequential, so the server is a list of results to come, one for each
  request in the order of the requests; the statements below hold for every such list. The
  trace keeps each request and each sleep. The clock is what \<^verbatim>\<open>time.time()\<close> reads, in
  seconds as a rational number, and it moves only while the program sleeps. The headers
  \<^verbatim>\<open>X-RateLimit-Remaining\<close> and \<^verbatim>\<open>X-RateLimit-Reset\<close> are the integers they carry
  (\<open>None\<close> when the header is absent), and \<open>has_next\<close> says whether
  \<^verbatim>\<open>response.links\<close> has the key \<^verbatim>\<open>next\<close>. What the program prints, the CSV files it
  writes and Python's recursion limit are not modelled.

  A request is the endpoint with the parameters that the URL carries: owner, repository,
  page and per\_page for the stargazers; user, page and per\_page for the repositories;
  user and page for the events.
\<close>

datatype request =
    GetStargazers string string int int
  | GetUser string
  | GetRepos string int int
  | GetStarred string
  | GetStarredCount string
  | GetEvents string int

datatype event = Request request | Sleep rat

record world =
  responses :: "http_result list"
  now :: rat
  trace :: "event list"

datatype py_error = UnboundLocalError | IndexError | UnexpectedBody

text \<open>
  A call either returns, raises an exception that no handler of the function catches, or
  is still waiting for a response when the list of responses is used up (\<open>Blocked\<close>).
  \<open>UnexpectedBody\<close> stands for a body that is not of the endpoint's JSON shape.
\<close>

datatype 'a outcome = Blocked | Raise py_error world | Return 'a world

definition http_get :: "request \<Rightarrow> world \<Rightarrow> (http_result \<times> world) option" where
  "http_get req w =
     (case responses w of
        [] \<Rightarrow> None
      | r # rs \<Rightarrow> Some (r, w\<lparr>responses := rs, trace := trace w @ [Request req]\<rparr>))"

definition sleep :: "rat \<Rightarrow> world \<Rightarrow> world" where
  "sleep d w = w\<lparr>now := now w + d, trace := trace w @ [Sleep d]\<rparr>"

definition REQUEST_DELAY :: rat where
  "REQUEST_DELAY = 1 / 2"

text \<open>\<^verbatim>\<open>response.raise_for_status()\<close> raises for the status codes 400 to 599.\<close>

definition raises_for_status :: "response \<Rightarrow> bool" where
  "raises_for_status r = (400 \<le> status_code r \<and> status_code r < 600)"

text \<open>
  The block under \<^verbatim>\<open># Check rate limit\<close>, the same in all six functions: the header is
  read with default 0, and a value below 10 is followed by a sleep of 60 seconds.
\<close>

definition check_rate_limit :: "response \<Rightarrow> world \<Rightarrow> world" where
  "check_rate_limit r w =
     (let remaining = (case remaining_hdr r of None \<Rightarrow> 0 | Some n \<Rightarrow> n)
      in if remaining < 10 then sleep 60 w else w)"

text \<open>
  The test of the handlers for the rate limit: status 403 and one of two phrases in
  \<^verbatim>\<open>response.text.lower()\<close>. \<open>lower\<close> maps the ASCII capitals to small letters.
\<close>

definition lower_char :: "char \<Rightarrow> char" where
  "lower_char c =
     (let n = (of_char c :: nat) in if 65 \<le> n \<and> n \<le> 90 then char_of (n + 32) else c)"

definition lower :: "string \<Rightarrow> string" where
  "lower s = map lower_char s"

fun contains :: "string \<Rightarrow> string \<Rightarrow> bool" where
  "contains needle [] = (needle = [])"
| "contains needle (c # cs) = (prefix needle (c # cs) \<or> contains needle cs)"

definition is_rate_limit :: "response \<Rightarrow> bool" where
  "is_rate_limit r =
     (status_code r = 403
      \<and> (contains ''rate limit exceeded'' (lower (resp_text r))
         \<or> contains ''secondary rate limit'' (lower (resp_text r))))"

text \<open>
  Lines 117-118 and their copies: the reset time is the header, or \<^verbatim>\<open>int(time.time() + 3600)\<close>
  when it is absent (\<^verbatim>\<open>int\<close> truncates towards zero), and the sleep lasts until then
  but at least 60 seconds.
\<close>

definition py_int :: "rat \<Rightarrow> int" where
  "py_int x = (if 0 \<le> x then \<lfloor>x\<rfloor> else \<lceil>x\<rceil>)"

definition sleep_duration :: "response \<Rightarrow> world \<Rightarrow> rat" where
  "sleep_duration r w =
     (let reset_time = (case reset_hdr r of None \<Rightarrow> py_int (now w + 3600) | Some t \<Rightarrow> t)
      in max (of_int reset_time - now w) 60)"

definition rate_limit_sleep :: "response \<Rightarrow> world \<Rightarrow> world" where
  "rate_limit_sleep r w = sleep (sleep_duration r w) w"

text \<open>The slice \<^verbatim>\<open>xs[:n]\<close>.\<close>

definition py_take :: "int \<Rightarrow> 'a list \<Rightarrow> 'a list" where
  "py_take n xs = (if 0 \<le> n then take (nat n) xs else take (length xs - nat (- n)) xs)"

section \<open>get\_stargazers (watchdog.py, lines 60-125)\<close>

text \<open>
  The \<^verbatim>\<open>while True\<close> loop, with the local variables as arguments. \<open>response\<close> is
  the local variable of that name: \<open>None\<close> while it is unbound, and in the handler
  of a request that raised without a response it still holds the response of the
  iteration before.
\<close>

function stargazers_loop ::
  "string \<Rightarrow> string \<Rightarrow> int option \<Rightarrow> int \<Rightarrow> int \<Rightarrow> stargazer list \<Rightarrow> response option
   \<Rightarrow> world \<Rightarrow> stargazer list outcome" where
  "stargazers_loop owner rp limit page fetched_count stargazers response w =
     (if (case limit of None \<Rightarrow> False | Some l \<Rightarrow> l - fetched_count \<le> 0)
      then Return stargazers w
      else
        let current_per_page =
              (case limit of None \<Rightarrow> 100
               | Some l \<Rightarrow> if l - fetched_count < 100 then l - fetched_count else 100)
        in case http_get (GetStargazers owner rp page current_per_page) w of
             None \<Rightarrow> Blocked
           | Some (ConnectionError, w1) \<Rightarrow>
               (case response of
                  None \<Rightarrow> Raise UnboundLocalError w1
                | Some r0 \<Rightarrow>
                    if is_rate_limit r0
                    then stargazers_loop owner rp limit page fetched_count stargazers
                           (Some r0) (rate_limit_sleep r0 w1)
                    else Return stargazers w1)
           | Some (Response r, w1) \<Rightarrow>
               if raises_for_status r
               then (if is_rate_limit r
                     then stargazers_loop owner rp limit page fetched_count stargazers
                            (Some r) (rate_limit_sleep r w1)
                     else Return stargazers w1)
               else
                 let w2 = check_rate_limit r w1 in
                 case json r of
                   StargazerList data \<Rightarrow>
                     if data = [] then Return stargazers w2
                     else if (case limit of None \<Rightarrow> False
                              | Some l \<Rightarrow> fetched_count + int (length data) \<ge> l)
                     then Return (py_take (the limit) (stargazers @ data)) w2
                     else if \<not> has_next r then Return (stargazers @ data) w2
                     else stargazers_loop owner rp limit (page + 1)
                            (fetched_count + int (length data)) (stargazers @ data)
                            (Some r) (sleep REQUEST_DELAY w2)
                 | _ \<Rightarrow> Raise UnexpectedBody w2)"
  by pat_completeness auto
termination
  by (relation "measure (\<lambda>(owner, rp, limit, page, fetched_count, stargazers, response, w).
                   length (responses w))")
     (auto simp: http_get_def sleep_def rate_limit_sleep_def check_rate_limit_def Let_def
           split: list.splits if_splits)

definition get_stargazers :: "string \<Rightarrow> string \<Rightarrow> int option \<Rightarrow> world \<Rightarrow> stargazer list outcome" where
  "get_stargazers owner rp limit w = stargazers_loop owner rp limit 1 0 [] None w"

section \<open>get\_user\_details (lines 128-161)\<close>

text \<open>
  The function has one request and calls itself again after a rate-limit sleep. A request
  that raises without a response finds \<^verbatim>\<open>response\<close> unbound in the handler.
\<close>

function get_user_details :: "string \<Rightarrow> world \<Rightarrow> pydict option outcome" where
  "get_user_details username w =
     (case http_get (GetUser username) w of
        None \<Rightarrow> Blocked
      | Some (ConnectionError, w1) \<Rightarrow> Raise UnboundLocalError w1
      | Some (Response r, w1) \<Rightarrow>
          if raises_for_status r
          then (if status_code r = 404 then Return None w1
                else if is_rate_limit r
                then get_user_details username (rate_limit_sleep r w1)
                else Return None w1)
          else
            let w2 = check_rate_limit r w1 in
            case json r of
              UserObject user_data \<Rightarrow> Return (Some user_data) (sleep REQUEST_DELAY w2)
            | _ \<Rightarrow> Raise UnexpectedBody w2)"
  by pat_completeness auto
termination
  by (relation "measure (\<lambda>(username, w). length (responses w))")
     (auto simp: http_get_def sleep_def rate_limit_sleep_def split: list.splits)

section \<open>get\_user\_repos (lines 164-225)\<close>

function repos_loop ::
  "string \<Rightarrow> int \<Rightarrow> int \<Rightarrow> int \<Rightarrow> int \<Rightarrow> repo list \<Rightarrow> response option \<Rightarrow> world
   \<Rightarrow> repo list option outcome" where
  "repos_loop username limit page per_page fetched_count repos response w =
     (if \<not> fetched_count < limit then Return (Some repos) w
      else
        case http_get (GetRepos username page per_page) w of
          None \<Rightarrow> Blocked
        | Some (ConnectionError, w1) \<Rightarrow>
            (case response of
               None \<Rightarrow> Raise UnboundLocalError w1
             | Some r0 \<Rightarrow>
                 if is_rate_limit r0
                 then repos_loop username limit page per_page fetched_count repos
                        (Some r0) (rate_limit_sleep r0 w1)
                 else Return None w1)
        | Some (Response r, w1) \<Rightarrow>
            if raises_for_status r
            then (if is_rate_limit r
                  then repos_loop username limit page per_page fetched_count repos
                         (Some r) (rate_limit_sleep r w1)
                  else Return None w1)
            else
              let w2 = check_rate_limit r w1 in
              case json r of
                RepoList data \<Rightarrow>
                  if data = [] then Return (Some repos) w2
                  else if fetched_count + int (length data) \<ge> limit \<or> \<not> has_next r
                  then Return (Some (repos @ data)) w2
                  else
                    let remaining_needed = limit - (fetched_count + int (length data))
                    in repos_loop username limit (page + 1)
                         (if remaining_needed < per_page then remaining_needed else per_page)
                         (fetched_count + int (length data)) (repos @ data)
                         (Some r) (sleep REQUEST_DELAY w2)
              | _ \<Rightarrow> Raise UnexpectedBody w2)"
  by pat_completeness auto
termination
  by (relation "measure (\<lambda>(username, limit, page, per_page, fetched_count, repos, response, w).
                   length (responses w))")
     (auto simp: http_get_def sleep_def rate_limit_sleep_def check_rate_limit_def Let_def
           split: list.splits if_splits)

text \<open>\<^verbatim>\<open>repo.get('description', '') or ''\<close>\<close>

definition description_or_empty :: "repo \<Rightarrow> string" where
  "description_or_empty rp = (case r_description rp of None \<Rightarrow> [] | Some d \<Rightarrow> d)"

definition get_user_repos :: "string \<Rightarrow> int \<Rightarrow> world \<Rightarrow> (string \<times> string) list option outcome" where
  "get_user_repos username limit w =
     (if limit \<le> 0 then Return (Some []) w
      else
        case repos_loop username limit 1 (min limit 100) 0 [] None w of
          Blocked \<Rightarrow> Blocked
        | Raise e w' \<Rightarrow> Raise e w'
        | Return None w' \<Rightarrow> Return None w'
        | Return (Some repos) w' \<Rightarrow>
            Return (Some (map (\<lambda>rp. (r_name rp, description_or_empty rp)) (py_take limit repos))) w')"

section \<open>get\_starred\_repos (lines 228-270)\<close>

function get_starred_repos :: "string \<Rightarrow> world \<Rightarrow> (string \<times> string) list option outcome" where
  "get_starred_repos username w =
     (case http_get (GetStarred username) w of
        None \<Rightarrow> Blocked
      | Some (ConnectionError, w1) \<Rightarrow> Raise UnboundLocalError w1
      | Some (Response r, w1) \<Rightarrow>
          if status_code r = 404 then Return None w1
          else if raises_for_status r
          then (if is_rate_limit r
                then get_starred_repos username (rate_limit_sleep r w1)
                else Return None w1)
          else
            let w2 = check_rate_limit r w1 in
            case json r of
              RepoList starred_list_data \<Rightarrow>
                Return (Some (map (\<lambda>rp. (r_full_name rp, description_or_empty rp))
                                starred_list_data))
                       (sleep REQUEST_DELAY w2)
            | _ \<Rightarrow> Raise UnexpectedBody w2)"
  by pat_completeness auto
termination
  by (relation "measure (\<lambda>(username, w). length (responses w))")
     (auto simp: http_get_def sleep_def rate_limit_sleep_def split: list.splits)

section \<open>get\_total\_starred\_count (lines 273-352)\<close>

text \<open>\<^verbatim>\<open>str(n)\<close> for a number that is not negative, as the f-strings print it.\<close>

fun string_of_nat :: "nat \<Rightarrow> string" where
  "string_of_nat n =
     (if n < 10 then [char_of (48 + n)]
      else string_of_nat (n div 10) @ [char_of (48 + n mod 10)])"

text \<open>
  The request is made with \<^verbatim>\<open>per_page=1\<close>, so the \<^verbatim>\<open>per_page\<close> that line 312 reads
  back from the URL is 1. The second request (line 323) is inside the same
  \<^verbatim>\<open>try\<close>; its handler inspects \<^verbatim>\<open>response\<close>, the first response. The
  \<^verbatim>\<open>time.sleep(REQUEST_DELAY)\<close> of line 339 follows two \<^verbatim>\<open>return\<close>s and is never run.
\<close>

function get_total_starred_count :: "string \<Rightarrow> world \<Rightarrow> pyval outcome" where
  "get_total_starred_count username w =
     (case http_get (GetStarredCount username) w of
        None \<Rightarrow> Blocked
      | Some (ConnectionError, w1) \<Rightarrow> Raise UnboundLocalError w1
      | Some (Response r, w1) \<Rightarrow>
          if status_code r = 404 then Return (PStr ''Private'') w1
          else if raises_for_status r
          then (if is_rate_limit r
                then get_total_starred_count username (rate_limit_sleep r w1)
                else Return PNone w1)
          else
            let w2 = check_rate_limit r w1 in
            case last_link r of
              LastWithoutPage \<Rightarrow> Raise IndexError w2
            | LastPage (Some page_num) \<Rightarrow> Return (PInt (page_num * 1)) w2
            | _ \<Rightarrow>
                (case http_get (GetUser username) w2 of
                   None \<Rightarrow> Blocked
                 | Some (ConnectionError, w3) \<Rightarrow>
                     if is_rate_limit r
                     then get_total_starred_count username (rate_limit_sleep r w3)
                     else Return PNone w3
                 | Some (Response user_response, w3) \<Rightarrow>
                     if raises_for_status user_response
                     then (if is_rate_limit r
                           then get_total_starred_count username (rate_limit_sleep r w3)
                           else Return PNone w3)
                     else
                       case json r of
                         RepoList first_page \<Rightarrow>
                           if has_next r
                           then Return (PStr (string_of_nat (length first_page) @ ''+'')) w3
                           else Return (PInt (int (length first_page))) w3
                       | _ \<Rightarrow> Raise UnexpectedBody w3))"
  by pat_completeness auto
termination
  by (relation "measure (\<lambda>(username, w). length (responses w))")
     (auto simp: http_get_def sleep_def rate_limit_sleep_def check_rate_limit_def Let_def
           split: list.splits if_splits)

section \<open>get\_user\_activity (lines 355-428)\<close>

function activity_loop ::
  "string \<Rightarrow> int \<Rightarrow> int \<Rightarrow> activity list \<Rightarrow> response option \<Rightarrow> world
   \<Rightarrow> activity list option outcome" where
  "activity_loop username max_pages page activities response w =
     (if \<not> page \<le> max_pages then Return (Some activities) w
      else
        case http_get (GetEvents username page) w of
          None \<Rightarrow> Blocked
        | Some (ConnectionError, w1) \<Rightarrow>
            (case response of
               None \<Rightarrow> Raise UnboundLocalError w1
             | Some r0 \<Rightarrow>
                 if is_rate_limit r0
                 then activity_loop username max_pages page activities
                        (Some r0) (rate_limit_sleep r0 w1)
                 else Return None w1)
        | Some (Response r, w1) \<Rightarrow>
            if status_code r = 404 then Return None w1
            else if raises_for_status r
            then (if is_rate_limit r
                  then activity_loop username max_pages page activities
                         (Some r) (rate_limit_sleep r w1)
                  else Return None w1)
            else
              let w2 = check_rate_limit r w1 in
              case json r of
                EventList data \<Rightarrow>
                  if data = [] then Return (Some activities) w2
                  else if \<not> has_next r \<or> page \<ge> max_pages
                  then Return (Some (activities @ data)) w2
                  else activity_loop username max_pages (page + 1) (activities @ data)
                         (Some r) (sleep REQUEST_DELAY w2)
              | _ \<Rightarrow> Raise UnexpectedBody w2)"
  by pat_completeness auto
termination
  by (relation "measure (\<lambda>(username, max_pages, page, activities, response, w).
                   length (responses w))")
     (auto simp: http_get_def sleep_def rate_limit_sleep_def check_rate_limit_def Let_def
           split: list.splits if_splits)

text \<open>\<^verbatim>\<open>f"{created_at}: {event_type} on {repo_name}"\<close>, each read with default \<^verbatim>\<open>'Unknown'\<close>.\<close>

definition or_unknown :: "string option \<Rightarrow> string" where
  "or_unknown x = (case x of None \<Rightarrow> ''Unknown'' | Some s \<Rightarrow> s)"

definition format_activity :: "activity \<Rightarrow> string" where
  "format_activity a =
     or_unknown (a_created_at a) @ '': '' @ or_unknown (a_type a) @ '' on ''
       @ or_unknown (a_repo_name a)"

definition get_user_activity :: "string \<Rightarrow> int \<Rightarrow> world \<Rightarrow> string list option outcome" where
  "get_user_activity username max_pages w =
     (case activity_loop username max_pages 1 [] None w of
        Blocked \<Rightarrow> Blocked
      | Raise e w' \<Rightarrow> Raise e w'
      | Return None w' \<Rightarrow> Return None w'
      | Return (Some activities) w' \<Rightarrow>
          if activities \<noteq> [] then Return (Some (map format_activity activities)) w'
          else Return (Some []) w')"

section \<open>fetch\_and\_save\_stargazer\_data (lines 432-648)\<close>

text \<open>
  The calls of one stargazer run one after the other on the same world; an exception of
  one of them leaves the whole function. Writing the CSV files is outside this model: the
  function's result here is what it has collected when the loop ends, or \<open>None\<close> for the
  early \<^verbatim>\<open>return\<close> when no stargazer was fetched.
\<close>

definition bind :: "'a outcome \<Rightarrow> ('a \<Rightarrow> world \<Rightarrow> 'b outcome) \<Rightarrow> 'b outcome" where
  "bind m f = (case m of Blocked \<Rightarrow> Blocked | Raise e w \<Rightarrow> Raise e w | Return a w \<Rightarrow> f a w)"

text \<open>\<^verbatim>\<open>sep.join(xs)\<close>\<close>

fun join :: "string \<Rightarrow> string list \<Rightarrow> string" where
  "join sep [] = []"
| "join sep [x] = x"
| "join sep (x # y # ys) = x @ sep @ join sep (y # ys)"

record collected =
  analysis_results :: "pydict list"
  user_all_starred_map :: "(string \<times> (string \<times> string) list) list"
  user_owned_repos_map :: "(string \<times> (string \<times> string) list) list"
  user_activity_map :: "(string \<times> string list) list"

definition default_user_data :: "string \<Rightarrow> pydict" where
  "default_user_data lg =
     [(''login'', PStr lg), (''created_at'', PStr ''Error''), (''public_repos'', PStr ''Error''),
      (''has_public_repos'', PStr ''Error''), (''followers'', PStr ''Error''),
      (''following'', PStr ''Error''), (''top_5_repos'', PStr ''Error''),
      (''top_5_repos_descriptions'', PStr ''Error''), (''starred_repo_status'', PStr ''Error''),
      (''starred_repos_sample'', PStr ''Error''), (''starred_repos_descriptions'', PStr ''Error''),
      (''user_activity'', PStr ''Error'')]"

text \<open>
  Line 482: \<^verbatim>\<open>public_repos > 0 if isinstance(public_repos, int) else 'Error'\<close>. A Python
  \<^verbatim>\<open>bool\<close> is an \<^verbatim>\<open>int\<close>, and \<^verbatim>\<open>True > 0\<close>.
\<close>

definition has_public_repos :: "pyval \<Rightarrow> pyval" where
  "has_public_repos v =
     (case v of PInt n \<Rightarrow> PBool (n > 0) | PBool b \<Rightarrow> PBool b | _ \<Rightarrow> PStr ''Error'')"

text \<open>Lines 476-482.\<close>

definition update_from_details :: "pydict \<Rightarrow> pydict \<Rightarrow> pydict" where
  "update_from_details details user_data =
     (let user_data = AList.update ''created_at'' (dict_get details ''created_at'' (PStr ''N/A'')) user_data;
          user_data = AList.update ''public_repos'' (dict_get details ''public_repos'' (PInt 0)) user_data;
          user_data = AList.update ''followers'' (dict_get details ''followers'' (PInt 0)) user_data;
          user_data = AList.update ''following'' (dict_get details ''following'' (PInt 0)) user_data
      in AList.update ''has_public_repos''
           (has_public_repos (dict_get user_data ''public_repos'' PNone)) user_data)"

text \<open>Lines 484-500, under \<^verbatim>\<open># Fetch Owned Repos\<close>.\<close>

definition fetch_owned_repos ::
  "string \<Rightarrow> pydict \<Rightarrow> collected \<Rightarrow> world \<Rightarrow> (pydict \<times> collected) outcome" where
  "fetch_owned_repos lg user_data c w =
     (if map_of user_data ''has_public_repos'' = Some (PBool True)
      then
        bind (get_user_repos lg 5 w) (\<lambda>top_5_repos_list w'.
          case top_5_repos_list of
            None \<Rightarrow>
              Return (AList.update ''top_5_repos_descriptions'' (PStr ''Error fetching repos'')
                        (AList.update ''top_5_repos'' (PStr ''Error fetching repos'') user_data),
                      c) w'
          | Some l \<Rightarrow>
              let repo_names = map fst l;
                  repo_descriptions = map snd l;
                  user_data = AList.update ''top_5_repos''
                     (PStr (if repo_names \<noteq> [] then join '', '' repo_names else ''None''))
                     user_data;
                  user_data = AList.update ''top_5_repos_descriptions''
                     (PStr (if repo_descriptions \<noteq> [] then join '' | '' repo_descriptions
                            else ''None''))
                     user_data
              in Return (user_data,
                         c\<lparr>user_owned_repos_map := AList.update lg l (user_owned_repos_map c)\<rparr>)
                   w')
      else
        Return (AList.update ''top_5_repos_descriptions'' (PStr ''N/A (0 public repos)'')
                  (AList.update ''top_5_repos'' (PStr ''N/A (0 public repos)'') user_data),
                c) w)"

text \<open>Lines 507-530: what the record gets from the two results about starred repositories.\<close>

definition record_starred ::
  "(string \<times> string) list option \<Rightarrow> pyval \<Rightarrow> pydict \<Rightarrow> pydict" where
  "record_starred starred_repos_list total_starred_count user_data =
     (case starred_repos_list of
        None \<Rightarrow> user_data
      | Some l \<Rightarrow>
          let user_data =
                (if length l = 0
                 then AList.update ''starred_repos_descriptions'' (PStr ''None'')
                        (AList.update ''starred_repos_sample'' (PStr ''None'')
                          (AList.update ''starred_repo_status''
                             (PStr ''Private (No Access to Starred Repo)'') user_data))
                 else
                   let user_data = AList.update ''starred_repo_status''
                                     (PStr ''Public (Has Starred Repos)'') user_data;
                       sample_list = py_take 10 l;
                       starred_names = map fst sample_list;
                       starred_descriptions = map snd sample_list;
                       sample = join '', '' starred_names;
                       user_data = AList.update ''starred_repos_sample'' (PStr sample) user_data;
                       user_data = AList.update ''starred_repos_descriptions''
                                     (PStr (join '' | '' starred_descriptions)) user_data
                   in if length l > 10
                      then AList.update ''starred_repos_sample''
                             (PStr (sample @ '', ... ('' @ string_of_nat (length l - 10)
                                    @ '' more)''))
                             user_data
                      else user_data)
          in AList.update ''total_starred_count'' total_starred_count user_data)"

text \<open>Lines 502-530, under \<^verbatim>\<open># Fetch Starred Repos\<close>: both calls are made first.\<close>

definition fetch_starred ::
  "string \<Rightarrow> pydict \<Rightarrow> collected \<Rightarrow> world
   \<Rightarrow> (pydict \<times> collected \<times> (string \<times> string) list option) outcome" where
  "fetch_starred lg user_data c w =
     bind (get_starred_repos lg w) (\<lambda>starred_repos_list w1.
       bind (get_total_starred_count lg w1) (\<lambda>total_starred_count w2.
         Return (record_starred starred_repos_list total_starred_count user_data,
                 (case starred_repos_list of
                    None \<Rightarrow> c
                  | Some l \<Rightarrow> c\<lparr>user_all_starred_map := AList.update lg l (user_all_starred_map c)\<rparr>),
                 starred_repos_list) w2))"

text \<open>Lines 532-548, under \<^verbatim>\<open># Fetch User Activity\<close>.\<close>

definition fetch_activity ::
  "string \<Rightarrow> (string \<times> string) list option \<Rightarrow> pydict \<Rightarrow> collected \<Rightarrow> world
   \<Rightarrow> (pydict \<times> collected) outcome" where
  "fetch_activity lg starred_repos_list user_data c w =
     (let is_public_user =
            (map_of user_data ''has_public_repos'' = Some (PBool True)
             \<or> (case starred_repos_list of None \<Rightarrow> False | Some l \<Rightarrow> length l > 0))
      in if is_public_user
         then
           bind (get_user_activity lg 1 w) (\<lambda>user_activity w'.
             case user_activity of
               None \<Rightarrow>
                 Return (AList.update ''user_activity''
                           (PStr ''Error fetching activity or private'') user_data, c) w'
             | Some acts \<Rightarrow>
                 if acts = []
                 then Return (AList.update ''user_activity'' (PStr ''No recent activity'')
                                user_data, c) w'
                 else
                   Return (AList.update ''user_activity''
                             (PStr (join '' || '' (py_take 10 acts)
                                    @ (if length acts > 10
                                       then '' || ... ('' @ string_of_nat (length acts - 10)
                                            @ '' more events)''
                                       else [])))
                             user_data,
                           c\<lparr>user_activity_map := AList.update lg acts (user_activity_map c)\<rparr>)
                     w')
         else Return (AList.update ''user_activity'' (PStr ''N/A (Private user)'') user_data, c) w)"

text \<open>
  The body of the \<^verbatim>\<open>for\<close> loop (lines 461-550). \<^verbatim>\<open>if details:\<close> is false for
  \<^verbatim>\<open>None\<close> and for an empty dict.
\<close>

definition process_stargazer :: "stargazer \<Rightarrow> collected \<Rightarrow> world \<Rightarrow> collected outcome" where
  "process_stargazer sg c w =
     (let lg = login sg in
      bind (get_user_details lg w) (\<lambda>details w1.
        let user_data = default_user_data lg in
        case details of
          Some (d # ds) \<Rightarrow>
            bind (fetch_owned_repos lg (update_from_details (d # ds) user_data) c w1)
              (\<lambda>(user_data, c) w2.
                bind (fetch_starred lg user_data c w2)
                  (\<lambda>(user_data, c, starred_repos_list) w3.
                    bind (fetch_activity lg starred_repos_list user_data c w3)
                      (\<lambda>(user_data, c) w4.
                        Return (c\<lparr>analysis_results := analysis_results c @ [user_data]\<rparr>) w4)))
        | _ \<Rightarrow> Return (c\<lparr>analysis_results := analysis_results c @ [user_data]\<rparr>) w1))"



section \<open>Notions used in the statements\<close>

text \<open>The world after a request has been answered by the first of the responses to come.\<close>

definition answered :: "request \<Rightarrow> world \<Rightarrow> world" where
  "answered req w = w\<lparr>responses := tl (responses w), trace := trace w @ [Request req]\<rparr>"

text \<open>
  A failure in the sense of the handlers: \<^verbatim>\<open>raise_for_status\<close> raises, and the branch for
  the rate limit is not taken.
\<close>

definition other_failure :: "response \<Rightarrow> bool" where
  "other_failure r = (raises_for_status r \<and> \<not> is_rate_limit r)"

text \<open>The value of the header \<^verbatim>\<open>X-RateLimit-Remaining\<close> as the code reads it (default 0).\<close>

definition remaining :: "response \<Rightarrow> int" where
  "remaining r = (case remaining_hdr r of None \<Rightarrow> 0 | Some n \<Rightarrow> n)"

text \<open>The value of key \<open>k\<close> in an analysis record.\<close>

definition field_of :: "pydict \<Rightarrow> string \<Rightarrow> pyval option" where
  "field_of user_data k = map_of user_data k"

text \<open>The defensive pause, in the words of the specification: 60 seconds when the quota left is below 10.\<close>

definition paused :: "response \<Rightarrow> world \<Rightarrow> world" where
  "paused r w = (if remaining r < 10 then sleep 60 w else w)"

text \<open>The item limit of get\_stargazers is reached once \<open>n\<close> items are fetched.\<close>

definition limit_reached :: "int option \<Rightarrow> int \<Rightarrow> bool" where
  "limit_reached limit n = (case limit of None \<Rightarrow> False | Some l \<Rightarrow> l \<le> n)"

text \<open>The \<^verbatim>\<open>per_page\<close> that get\_stargazers asks for when \<open>n\<close> items are fetched.\<close>

definition current_per_page :: "int option \<Rightarrow> int \<Rightarrow> int" where
  "current_per_page limit n =
     (case limit of None \<Rightarrow> 100 | Some l \<Rightarrow> if l - n < 100 then l - n else 100)"

text \<open>A response to come that is a page of stargazers accepted by \<^verbatim>\<open>raise_for_status\<close>.\<close>

definition stargazer_page :: "http_result \<Rightarrow> bool" where
  "stargazer_page x =
     (case x of
        ConnectionError \<Rightarrow> False
      | Response r \<Rightarrow>
          \<not> raises_for_status r \<and> (case json r of StargazerList data \<Rightarrow> True | _ \<Rightarrow> False))"

text \<open>
  The world after a request was answered by \<open>r\<close>, the defensive pause and the delay of
  0.5 seconds.
\<close>

definition delayed :: "response \<Rightarrow> request \<Rightarrow> world \<Rightarrow> world" where
  "delayed r req w = sleep (1 / 2) (paused r (answered req w))"

text \<open>
  The pages that a call asks for, read off the trace, and the pages that the specification
  lets it ask for: the first page, and after each response the next page when the response
  is accepted and supplies a \<^verbatim>\<open>next\<close> link, the same page otherwise.
\<close>

fun page_of :: "request \<Rightarrow> int" where
  "page_of (GetStargazers owner rp page per_page) = page"
| "page_of (GetRepos username page per_page) = page"
| "page_of (GetEvents username page) = page"
| "page_of (GetUser username) = 0"
| "page_of (GetStarred username) = 1"
| "page_of (GetStarredCount username) = 1"

fun pages_requested :: "event list \<Rightarrow> int list" where
  "pages_requested [] = []"
| "pages_requested (Request req # evs) = page_of req # pages_requested evs"
| "pages_requested (Sleep d # evs) = pages_requested evs"

definition supplies_next :: "http_result \<Rightarrow> bool" where
  "supplies_next x =
     (case x of ConnectionError \<Rightarrow> False
      | Response r \<Rightarrow> \<not> raises_for_status r \<and> has_next r)"

fun pages_followed :: "int \<Rightarrow> http_result list \<Rightarrow> int list" where
  "pages_followed page [] = []"
| "pages_followed page (x # xs) =
     page # pages_followed (if supplies_next x then page + 1 else page) xs"

text \<open>The world in which a call ends, if it ends.\<close>

definition world_of :: "'a outcome \<Rightarrow> world option" where
  "world_of out = (case out of Blocked \<Rightarrow> None | Raise e w \<Rightarrow> Some w | Return a w \<Rightarrow> Some w)"

text \<open>
  Between the worlds \<open>w\<close> and \<open>w'\<close> a call that started at \<open>page\<close> has used the first
  \<open>k\<close> responses, and the pages it asked for are those that these responses lead to.
\<close>

definition consumed :: "nat \<Rightarrow> int \<Rightarrow> world \<Rightarrow> world \<Rightarrow> bool" where
  "consumed k page w w' =
     (k \<le> length (responses w) \<and> responses w' = drop k (responses w)
      \<and> pages_requested (trace w')
          = pages_requested (trace w) @ pages_followed page (take k (responses w)))"

section \<open>Concrete responses for the examples\<close>

definition ok_response :: "int \<Rightarrow> bool \<Rightarrow> payload \<Rightarrow> response" where
  "ok_response quota nxt body =
     \<lparr>status_code = 200, resp_text = [], remaining_hdr = Some quota, reset_hdr = None,
      has_next = nxt, last_link = NoLastLink, json = body\<rparr>"

definition error_response :: "int \<Rightarrow> string \<Rightarrow> response" where
  "error_response code msg =
     \<lparr>status_code = code, resp_text = msg, remaining_hdr = Some 5, reset_hdr = Some 1000,
      has_next = False, last_link = NoLastLink, json = UserObject []\<rparr>"

definition rate_limited :: response where
  "rate_limited = error_response 403 ''API rate limit exceeded for user ID 1.''"

definition world_with :: "http_result list \<Rightarrow> world" where
  "world_with rs = \<lparr>responses = rs, now = 0, trace = []\<rparr>"

text \<open>A world whose only response is a page with a link to the next one and a quota of 5.\<close>

definition page_world :: "payload \<Rightarrow> world" where
  "page_world body = world_with [Response (ok_response 5 True body)]"

text \<open>
  The responses to the calls for a stargazer with no public repository and no starred
  repository: user details, starred repositories, and the two requests of the count.
\<close>

definition private_user_world :: world where
  "private_user_world =
     world_with [Response (ok_response 5000 False
                   (UserObject [(''public_repos'', PInt 0), (''followers'', PInt 2)])),
                 Response (ok_response 5000 False (RepoList [])),
                 Response (ok_response 5000 False (RepoList [])),
                 Response (ok_response 5000 False (UserObject []))]"



text \<open>Two pages of each kind; the second page of repositories comes after a rate-limit 403.\<close>

definition two_stargazer_pages :: world where
  "two_stargazer_pages =
     world_with [Response (ok_response 5000 True (StargazerList [\<lparr>login = ''a''\<rparr>])),
                 Response (ok_response 5000 False (StargazerList [\<lparr>login = ''b''\<rparr>]))]"

definition two_repo_pages :: world where
  "two_repo_pages =
     world_with [Response (ok_response 5000 True
                   (RepoList [\<lparr>r_name = ''a'', r_full_name = ''bob/a'', r_description = None\<rparr>])),
                 Response rate_limited,
                 Response (ok_response 5000 False
                   (RepoList [\<lparr>r_name = ''b'', r_full_name = ''bob/b'', r_description = None\<rparr>]))]"

definition two_event_pages :: world where
  "two_event_pages =
     world_with [Response (ok_response 5000 True
                   (EventList [\<lparr>a_type = None, a_created_at = None, a_repo_name = None\<rparr>])),
                 Response (ok_response 5000 False (EventList []))]"

text \<open>The equations of the loops are unfolded by hand, one step at a time.\<close>

declare stargazers_loop.simps [simp del] get_user_details.simps [simp del]
  repos_loop.simps [simp del] get_starred_repos.simps [simp del]
  get_total_starred_count.simps [simp del] activity_loop.simps [simp del]
  string_of_nat.simps [simp del]

section \<open>Properties\<close>

subsection \<open>The filename helper\<close>

lemma underscore_legal: "CHR ''_'' \<notin> illegal_chars"
  by (simp add: illegal_chars_def)

text \<open>
  Claim C9: sanitize_filename is idempotent, its output holds none of the characters
  \<^verbatim>\<open>< > : " / \ | ? *\<close>, and the copies in watchdog.py and analyze.py are the same function.
\<close>

theorem sanitize_filename_idempotent_clean:
  "sanitize_filename (sanitize_filename s) = sanitize_filename s
   \<and> set (sanitize_filename s) \<inter> illegal_chars = {}
   \<and> analyze_sanitize_filename s = sanitize_filename s"
proof -
  have clean: "set (sanitize_filename s) \<inter> illegal_chars = {}"
    using underscore_legal by (auto simp: sanitize_filename_def)
  have "sanitize_filename (sanitize_filename s) = sanitize_filename s"
    using underscore_legal by (simp add: sanitize_filename_def)
  moreover have "analyze_sanitize_filename s = sanitize_filename s"
    by (simp add: analyze_sanitize_filename_def sanitize_filename_def)
  ultimately show ?thesis using clean by simp
qed

subsection \<open>One request, one response\<close>

lemma http_get_Cons: "responses w = x # rs \<Longrightarrow> http_get req w = Some (x, answered req w)"
  by (simp add: http_get_def answered_def)

lemma rate_limit_raises: "is_rate_limit r \<Longrightarrow> raises_for_status r \<and> status_code r \<noteq> 404"
  by (simp add: is_rate_limit_def raises_for_status_def)


lemma ok_not_404: "\<not> raises_for_status r \<Longrightarrow> status_code r \<noteq> 404"
  by (auto simp: raises_for_status_def)

lemma check_rate_limit_paused: "check_rate_limit r w = paused r w"
  by (simp add: check_rate_limit_def paused_def remaining_def)

lemma sleep_duration_answered: "sleep_duration r (answered req w) = sleep_duration r w"
  by (simp add: sleep_duration_def answered_def split: option.splits)

lemma responses_sleep: "responses (sleep d w) = responses w"
  by (simp add: sleep_def)

lemma responses_paused: "responses (paused r w) = responses w"
  by (simp add: paused_def responses_sleep)

lemma responses_answered: "responses (answered req w) = tl (responses w)"
  by (simp add: answered_def)

lemma rate_limited_is: "is_rate_limit rate_limited"
  by code_simp


lemma not_found_example: "status_code (error_response 404 ''Not Found'') = 404"
  by (simp add: error_response_def)

subsection \<open>One step of each function\<close>






lemma repos_loop_failure:
  "responses w = Response r # rs \<Longrightarrow> other_failure r \<Longrightarrow> fetched_count < limit
   \<Longrightarrow> repos_loop username limit page per_page fetched_count repos response w
       = Return None (answered (GetRepos username page per_page) w)"
  by (subst repos_loop.simps) (simp add: http_get_Cons other_failure_def)

lemma get_user_repos_failure:
  "responses w = Response r # rs \<Longrightarrow> other_failure r \<Longrightarrow> 0 < limit
   \<Longrightarrow> get_user_repos username limit w
       = Return None (answered (GetRepos username 1 (min limit 100)) w)"
  by (simp add: get_user_repos_def repos_loop_failure)

lemma activity_loop_failure:
  "responses w = Response r # rs \<Longrightarrow> other_failure r \<or> status_code r = 404
   \<Longrightarrow> page \<le> max_pages
   \<Longrightarrow> activity_loop username max_pages page activities response w
       = Return None (answered (GetEvents username page) w)"
  by (subst activity_loop.simps) (auto simp add: http_get_Cons other_failure_def)


lemma stargazers_loop_failure:
  "responses w = Response r # rs \<Longrightarrow> other_failure r
   \<Longrightarrow> \<not> limit_reached limit fetched_count
   \<Longrightarrow> stargazers_loop owner rp limit page fetched_count stargazers response w
       = Return stargazers
           (answered (GetStargazers owner rp page (current_per_page limit fetched_count)) w)"
  by (subst stargazers_loop.simps)
     (simp add: http_get_Cons other_failure_def Let_def limit_reached_def current_per_page_def
           split: option.splits)

text \<open>
  The first request of every function is retried after the sleep: the call equals the same
  call, for the same page, in the world after the request and a sleep of \<open>sleep_duration\<close>.
\<close>

lemma get_user_details_rate_limit:
  "responses w = Response r # rs \<Longrightarrow> is_rate_limit r
   \<Longrightarrow> get_user_details username w
       = get_user_details username (sleep (sleep_duration r w) (answered (GetUser username) w))"
  by (subst get_user_details.simps)
     (simp add: http_get_Cons rate_limit_raises rate_limit_sleep_def sleep_duration_answered)

lemma get_starred_repos_rate_limit:
  "responses w = Response r # rs \<Longrightarrow> is_rate_limit r
   \<Longrightarrow> get_starred_repos username w
       = get_starred_repos username (sleep (sleep_duration r w) (answered (GetStarred username) w))"
  by (subst get_starred_repos.simps)
     (simp add: http_get_Cons rate_limit_raises rate_limit_sleep_def sleep_duration_answered)

lemma get_total_starred_count_rate_limit:
  "responses w = Response r # rs \<Longrightarrow> is_rate_limit r
   \<Longrightarrow> get_total_starred_count username w
       = get_total_starred_count username
           (sleep (sleep_duration r w) (answered (GetStarredCount username) w))"
  by (subst get_total_starred_count.simps)
     (simp add: http_get_Cons rate_limit_raises rate_limit_sleep_def sleep_duration_answered)

lemma stargazers_loop_rate_limit:
  "responses w = Response r # rs \<Longrightarrow> is_rate_limit r \<Longrightarrow> \<not> limit_reached limit fetched_count
   \<Longrightarrow> stargazers_loop owner rp limit page fetched_count stargazers response w
       = stargazers_loop owner rp limit page fetched_count stargazers (Some r)
           (sleep (sleep_duration r w)
              (answered (GetStargazers owner rp page (current_per_page limit fetched_count)) w))"
  by (subst stargazers_loop.simps)
     (simp add: http_get_Cons rate_limit_raises rate_limit_sleep_def sleep_duration_answered
        Let_def limit_reached_def current_per_page_def split: option.splits)

lemma repos_loop_rate_limit:
  "responses w = Response r # rs \<Longrightarrow> is_rate_limit r \<Longrightarrow> fetched_count < limit
   \<Longrightarrow> repos_loop username limit page per_page fetched_count repos response w
       = repos_loop username limit page per_page fetched_count repos (Some r)
           (sleep (sleep_duration r w) (answered (GetRepos username page per_page) w))"
  by (subst repos_loop.simps)
     (simp add: http_get_Cons rate_limit_raises rate_limit_sleep_def sleep_duration_answered)

lemma activity_loop_rate_limit:
  "responses w = Response r # rs \<Longrightarrow> is_rate_limit r \<Longrightarrow> page \<le> max_pages
   \<Longrightarrow> activity_loop username max_pages page activities response w
       = activity_loop username max_pages page activities (Some r)
           (sleep (sleep_duration r w) (answered (GetEvents username page) w))"
  by (subst activity_loop.simps)
     (simp add: http_get_Cons rate_limit_raises rate_limit_sleep_def sleep_duration_answered)

text \<open>A response that \<^verbatim>\<open>raise_for_status\<close> accepts, with a body of the endpoint's shape.\<close>

lemma get_user_details_success:
  "responses w = Response r # rs \<Longrightarrow> \<not> raises_for_status r \<Longrightarrow> json r = UserObject d
   \<Longrightarrow> get_user_details username w
       = Return (Some d) (sleep REQUEST_DELAY (paused r (answered (GetUser username) w)))"
  by (subst get_user_details.simps) (simp add: http_get_Cons check_rate_limit_paused)

lemma get_starred_repos_success:
  "responses w = Response r # rs \<Longrightarrow> \<not> raises_for_status r \<Longrightarrow> json r = RepoList l
   \<Longrightarrow> get_starred_repos username w
       = Return (Some (map (\<lambda>rp. (r_full_name rp, description_or_empty rp)) l))
           (sleep REQUEST_DELAY (paused r (answered (GetStarred username) w)))"
  by (subst get_starred_repos.simps) (simp add: http_get_Cons check_rate_limit_paused ok_not_404)

lemma stargazers_loop_success:
  "responses w = Response r # rs \<Longrightarrow> \<not> raises_for_status r \<Longrightarrow> json r = StargazerList data
   \<Longrightarrow> \<not> limit_reached limit fetched_count
   \<Longrightarrow> stargazers_loop owner rp limit page fetched_count stargazers response w
       = (let w2 = paused r (answered (GetStargazers owner rp page
                                         (current_per_page limit fetched_count)) w)
          in if data = [] then Return stargazers w2
             else if limit_reached limit (fetched_count + int (length data))
             then Return (py_take (the limit) (stargazers @ data)) w2
             else if \<not> has_next r then Return (stargazers @ data) w2
             else stargazers_loop owner rp limit (page + 1) (fetched_count + int (length data))
                    (stargazers @ data) (Some r) (sleep REQUEST_DELAY w2))"
  by (subst stargazers_loop.simps)
     (simp add: http_get_Cons check_rate_limit_paused Let_def limit_reached_def
        current_per_page_def split: option.splits)

lemma repos_loop_success:
  "responses w = Response r # rs \<Longrightarrow> \<not> raises_for_status r \<Longrightarrow> json r = RepoList data
   \<Longrightarrow> fetched_count < limit
   \<Longrightarrow> repos_loop username limit page per_page fetched_count repos response w
       = (let w2 = paused r (answered (GetRepos username page per_page) w)
          in if data = [] then Return (Some repos) w2
             else if limit \<le> fetched_count + int (length data) \<or> \<not> has_next r
             then Return (Some (repos @ data)) w2
             else repos_loop username limit (page + 1)
                    (min (limit - (fetched_count + int (length data))) per_page)
                    (fetched_count + int (length data)) (repos @ data) (Some r)
                    (sleep REQUEST_DELAY w2))"
  by (subst repos_loop.simps)
     (simp add: http_get_Cons check_rate_limit_paused Let_def min_def)

lemma activity_loop_success:
  "responses w = Response r # rs \<Longrightarrow> \<not> raises_for_status r \<Longrightarrow> json r = EventList data
   \<Longrightarrow> page \<le> max_pages
   \<Longrightarrow> activity_loop username max_pages page activities response w
       = (let w2 = paused r (answered (GetEvents username page) w)
          in if data = [] then Return (Some activities) w2
             else if \<not> has_next r \<or> max_pages \<le> page
             then Return (Some (activities @ data)) w2
             else activity_loop username max_pages (page + 1) (activities @ data) (Some r)
                    (sleep REQUEST_DELAY w2))"
  by (subst activity_loop.simps)
     (simp add: http_get_Cons check_rate_limit_paused Let_def ok_not_404)

text \<open>
  A request that raises without a response never moves to the next page: the handler
  finds \<^verbatim>\<open>response\<close> unbound, or takes the response of the iteration before, and then
  tries the same page again or stops.
\<close>

lemma stargazers_loop_connection_error:
  "responses w = ConnectionError # rs \<Longrightarrow> \<not> limit_reached limit fetched_count
   \<Longrightarrow> stargazers_loop owner rp limit page fetched_count stargazers response w
       = (let w1 = answered (GetStargazers owner rp page
                               (current_per_page limit fetched_count)) w
          in case response of
               None \<Rightarrow> Raise UnboundLocalError w1
             | Some r0 \<Rightarrow>
                 if is_rate_limit r0
                 then stargazers_loop owner rp limit page fetched_count stargazers (Some r0)
                        (sleep (sleep_duration r0 w) w1)
                 else Return stargazers w1)"
  by (subst stargazers_loop.simps)
     (simp add: http_get_Cons rate_limit_sleep_def sleep_duration_answered Let_def
        limit_reached_def current_per_page_def split: option.splits)

lemma repos_loop_connection_error:
  "responses w = ConnectionError # rs \<Longrightarrow> fetched_count < limit
   \<Longrightarrow> repos_loop username limit page per_page fetched_count repos response w
       = (let w1 = answered (GetRepos username page per_page) w
          in case response of
               None \<Rightarrow> Raise UnboundLocalError w1
             | Some r0 \<Rightarrow>
                 if is_rate_limit r0
                 then repos_loop username limit page per_page fetched_count repos (Some r0)
                        (sleep (sleep_duration r0 w) w1)
                 else Return None w1)"
  by (subst repos_loop.simps)
     (simp add: http_get_Cons rate_limit_sleep_def sleep_duration_answered Let_def
        split: option.splits)

lemma activity_loop_connection_error:
  "responses w = ConnectionError # rs \<Longrightarrow> page \<le> max_pages
   \<Longrightarrow> activity_loop username max_pages page activities response w
       = (let w1 = answered (GetEvents username page) w
          in case response of
               None \<Rightarrow> Raise UnboundLocalError w1
             | Some r0 \<Rightarrow>
                 if is_rate_limit r0
                 then activity_loop username max_pages page activities (Some r0)
                        (sleep (sleep_duration r0 w) w1)
                 else Return None w1)"
  by (subst activity_loop.simps)
     (simp add: http_get_Cons rate_limit_sleep_def sleep_duration_answered Let_def
        split: option.splits)

text \<open>An iteration that finds the limit reached makes no request.\<close>

lemma limit_reached_mono:
  "\<not> limit_reached limit (n + int k) \<Longrightarrow> \<not> limit_reached limit n"
  by (auto simp: limit_reached_def split: option.splits)

lemma stargazers_loop_reached:
  "limit_reached limit fetched_count
   \<Longrightarrow> stargazers_loop owner rp limit page fetched_count stargazers response w
       = Return stargazers w"
  by (subst stargazers_loop.simps) (auto simp: limit_reached_def split: option.splits)

lemma repos_loop_reached:
  "limit \<le> fetched_count
   \<Longrightarrow> repos_loop username limit page per_page fetched_count repos response w
       = Return (Some repos) w"
  by (subst repos_loop.simps) simp

lemma activity_loop_reached:
  "max_pages < page
   \<Longrightarrow> activity_loop username max_pages page activities response w
       = Return (Some activities) w"
  by (subst activity_loop.simps) simp

lemma stargazers_pagination:
  assumes "responses w = Response r # rs" and "\<not> raises_for_status r"
    and "json r = StargazerList data" and "\<not> limit_reached limit fetched_count"
  shows "if data \<noteq> [] \<and> has_next r \<and> \<not> limit_reached limit (fetched_count + int (length data))
         then stargazers_loop owner rp limit page fetched_count stargazers response w
              = stargazers_loop owner rp limit (page + 1) (fetched_count + int (length data))
                  (stargazers @ data) (Some r)
                  (sleep REQUEST_DELAY
                     (paused r (answered (GetStargazers owner rp page
                                            (current_per_page limit fetched_count)) w)))
         else \<exists>res. stargazers_loop owner rp limit page fetched_count stargazers response w
              = Return res
                  (paused r (answered (GetStargazers owner rp page
                                         (current_per_page limit fetched_count)) w))"
  using stargazers_loop_success [OF assms] by (auto simp: Let_def)

lemma repos_pagination:
  assumes "responses w = Response r # rs" and "\<not> raises_for_status r"
    and "json r = RepoList data" and "fetched_count < limit"
  shows "if data \<noteq> [] \<and> has_next r \<and> fetched_count + int (length data) < limit
         then repos_loop username limit page per_page fetched_count repos response w
              = repos_loop username limit (page + 1)
                  (min (limit - (fetched_count + int (length data))) per_page)
                  (fetched_count + int (length data)) (repos @ data) (Some r)
                  (sleep REQUEST_DELAY (paused r (answered (GetRepos username page per_page) w)))
         else \<exists>res. repos_loop username limit page per_page fetched_count repos response w
              = Return res (paused r (answered (GetRepos username page per_page) w))"
  using repos_loop_success [OF assms] by (auto simp: Let_def)

lemma activity_pagination:
  assumes "responses w = Response r # rs" and "\<not> raises_for_status r"
    and "json r = EventList data" and "page \<le> max_pages"
  shows "if data \<noteq> [] \<and> has_next r \<and> page < max_pages
         then activity_loop username max_pages page activities response w
              = activity_loop username max_pages (page + 1) (activities @ data) (Some r)
                  (sleep REQUEST_DELAY (paused r (answered (GetEvents username page) w)))
         else \<exists>res. activity_loop username max_pages page activities response w
              = Return res (paused r (answered (GetEvents username page) w))"
  using activity_loop_success [OF assms] by (auto simp: Let_def)

subsection \<open>The rate limit\<close>

text \<open>
  Claim C1 says that every request that fails with a rate-limit 403 is followed by a sleep
  and a retry. The second request of get\_total\_starred\_count (line 323) is not: its
  handler looks at the first response, which was accepted, so the call returns \<^verbatim>\<open>None\<close>
  at once, with no sleep in the trace and the next response left unread.
\<close>

theorem total_starred_count_second_request_not_retried:
  "get_total_starred_count ''bob''
     (world_with [Response (ok_response 5000 False (RepoList [])), Response rate_limited,
                  Response (ok_response 5000 False (UserObject []))])
   = Return PNone
       \<lparr>responses = [Response (ok_response 5000 False (UserObject []))], now = 0,
        trace = [Request (GetStarredCount ''bob''), Request (GetUser ''bob'')]\<rparr>"
  by code_simp

subsection \<open>Not found\<close>





subsection \<open>Failures that are not the rate limit\<close>




subsection \<open>The pages a call asks for\<close>

text \<open>Sleeping and pausing ask for no page; a request asks for its own.\<close>

lemma pages_requested_append:
  "pages_requested (evs @ evs') = pages_requested evs @ pages_requested evs'"
  by (induction evs rule: pages_requested.induct) auto

lemma trace_sleep: "trace (sleep d w) = trace w @ [Sleep d]"
  by (simp add: sleep_def)

lemma pages_sleep: "pages_requested (trace (sleep d w)) = pages_requested (trace w)"
  by (simp add: trace_sleep pages_requested_append)

lemma pages_paused: "pages_requested (trace (paused r w)) = pages_requested (trace w)"
  by (simp add: paused_def pages_sleep)

lemma pages_answered:
  "pages_requested (trace (answered req w)) = pages_requested (trace w) @ [page_of req]"
  by (simp add: answered_def pages_requested_append)

lemma consumed_zero: "consumed 0 page w w"
  by (simp add: consumed_def)

lemma consumed_one:
  "responses w = x # rs \<Longrightarrow> responses w' = rs
   \<Longrightarrow> pages_requested (trace w') = pages_requested (trace w) @ [page]
   \<Longrightarrow> consumed (Suc 0) page w w'"
  by (simp add: consumed_def)

lemma consumed_step:
  "responses w = x # rs \<Longrightarrow> responses w1 = rs
   \<Longrightarrow> pages_requested (trace w1) = pages_requested (trace w) @ [page]
   \<Longrightarrow> consumed k (if supplies_next x then page + 1 else page) w1 w'
   \<Longrightarrow> consumed (Suc k) page w w'"
  by (simp add: consumed_def)

lemma world_of_simps:
  "world_of Blocked = None" "world_of (Raise e w) = Some w" "world_of (Return a w) = Some w"
  by (simp_all add: world_of_def)

lemma supplies_next_simps:
  "supplies_next ConnectionError = False"
  "supplies_next (Response r) = (\<not> raises_for_status r \<and> has_next r)"
  by (simp_all add: supplies_next_def)

lemma stargazers_loop_blocked:
  "responses w = [] \<Longrightarrow> \<not> limit_reached limit fetched_count
   \<Longrightarrow> stargazers_loop owner rp limit page fetched_count stargazers response w = Blocked"
  by (subst stargazers_loop.simps)
     (simp add: http_get_def limit_reached_def Let_def split: option.splits)

text \<open>
  One iteration that makes a request: either the call ends in the world after that
  request, or it equals the loop at the page that the response leads to, in a world where
  that one response is used and that one page was asked for.
\<close>

lemma stargazers_loop_one_step:
  assumes "responses w = x # rs" and "\<not> limit_reached limit fetched_count"
  shows "(\<exists>w1. world_of (stargazers_loop owner rp limit page fetched_count stargazers
                            response w) = Some w1
              \<and> responses w1 = rs
              \<and> pages_requested (trace w1) = pages_requested (trace w) @ [page])
       \<or> (\<exists>fetched_count' stargazers' response' w1.
             stargazers_loop owner rp limit page fetched_count stargazers response w
             = stargazers_loop owner rp limit (if supplies_next x then page + 1 else page)
                 fetched_count' stargazers' response' w1
             \<and> responses w1 = rs
             \<and> pages_requested (trace w1) = pages_requested (trace w) @ [page])"
    (is "?stop \<or> ?go")
proof -
  let ?req = "GetStargazers owner rp page (current_per_page limit fetched_count)"
  let ?w1 = "answered ?req w"
  have a: "responses ?w1 = rs"
      "pages_requested (trace ?w1) = pages_requested (trace w) @ [page]"
    using assms(1) by (simp_all add: responses_answered pages_answered)
  have retry: ?go
    if "stargazers_loop owner rp limit page fetched_count stargazers response w
        = stargazers_loop owner rp limit page fetched_count stargazers (Some r0)
            (sleep d ?w1)" and "\<not> supplies_next x" for r0 d
    by (intro exI [of _ fetched_count] exI [of _ stargazers] exI [of _ "Some r0"]
          exI [of _ "sleep d ?w1"])
       (simp add: that a responses_sleep pages_sleep)
  have stop: ?stop
    if "world_of (stargazers_loop owner rp limit page fetched_count stargazers response w)
        = Some w1" and "responses w1 = rs"
      and "pages_requested (trace w1) = pages_requested (trace w) @ [page]" for w1
    using that by blast
  show ?thesis
  proof (cases x)
    case ConnectionError
    note step = stargazers_loop_connection_error
                  [OF assms(1)[unfolded ConnectionError] assms(2),
                   of owner rp page stargazers response]
    show ?thesis
    proof (cases response)
      case None
      then have "world_of (stargazers_loop owner rp limit page fetched_count stargazers
                             response w) = Some ?w1"
        using step by (simp add: Let_def world_of_simps)
      then show ?thesis
        using stop a by blast
    next
      case (Some r0)
      show ?thesis
      proof (cases "is_rate_limit r0")
        case True
        then have "stargazers_loop owner rp limit page fetched_count stargazers response w
              = stargazers_loop owner rp limit page fetched_count stargazers (Some r0)
                  (sleep (sleep_duration r0 w) ?w1)"
          using step Some by (simp add: Let_def)
        then show ?thesis
          using retry ConnectionError by (simp add: supplies_next_simps)
      next
        case False
        then have "world_of (stargazers_loop owner rp limit page fetched_count stargazers
                               response w) = Some ?w1"
          using step Some by (simp add: Let_def world_of_simps)
        then show ?thesis
          using stop a by blast
      qed
    qed
  next
    case (Response r)
    note w = assms(1)[unfolded Response]
    show ?thesis
    proof (cases "raises_for_status r")
      case True
      then have nx: "\<not> supplies_next x"
        using Response by (simp add: supplies_next_simps)
      show ?thesis
      proof (cases "is_rate_limit r")
        case rl: True
        show ?thesis
          using retry [OF stargazers_loop_rate_limit [OF w rl assms(2)] nx] by (rule disjI2)
      next
        case False
        then have "other_failure r"
          using True by (simp add: other_failure_def)
        then have "world_of (stargazers_loop owner rp limit page fetched_count stargazers
                               response w) = Some ?w1"
          using stargazers_loop_failure [OF w _ assms(2)] by (simp add: world_of_simps)
        then show ?thesis
          using stop a by blast
      qed
    next
      case False
      let ?w2 = "paused r ?w1"
      have p: "responses ?w2 = rs"
          "pages_requested (trace ?w2) = pages_requested (trace w) @ [page]"
        using a by (simp_all add: responses_paused pages_paused)
      show ?thesis
      proof (cases "\<exists>data. json r = StargazerList data")
        case True
        then obtain data where data: "json r = StargazerList data"
          by blast
        note pg = stargazers_pagination [OF w False data assms(2),
                                         of owner rp page stargazers response]
        show ?thesis
        proof (cases "data \<noteq> [] \<and> has_next r
                      \<and> \<not> limit_reached limit (fetched_count + int (length data))")
          case adv: True
          then have nx: "supplies_next x"
            using Response False by (simp add: supplies_next_simps)
          have "stargazers_loop owner rp limit page fetched_count stargazers response w
                = stargazers_loop owner rp limit (page + 1)
                    (fetched_count + int (length data)) (stargazers @ data) (Some r)
                    (sleep REQUEST_DELAY ?w2)"
            using pg adv by simp
          then have ?go
            by (intro exI [of _ "fetched_count + int (length data)"]
                  exI [of _ "stargazers @ data"] exI [of _ "Some r"]
                  exI [of _ "sleep REQUEST_DELAY ?w2"])
               (simp add: nx p responses_sleep pages_sleep)
          then show ?thesis ..
        next
          case False
          then obtain res where
            "stargazers_loop owner rp limit page fetched_count stargazers response w
             = Return res ?w2"
            using pg by auto
          then have "world_of (stargazers_loop owner rp limit page fetched_count stargazers
                                 response w) = Some ?w2"
            by (simp add: world_of_simps)
          then show ?thesis
            using stop p by blast
        qed
      next
        case no: False
        have "stargazers_loop owner rp limit page fetched_count stargazers response w
              = Raise UnexpectedBody ?w2"
          using w False no assms(2)
          by (subst stargazers_loop.simps)
             (auto simp: http_get_Cons check_rate_limit_paused Let_def limit_reached_def
                current_per_page_def split: option.splits payload.splits)
        then have "world_of (stargazers_loop owner rp limit page fetched_count stargazers
                               response w) = Some ?w2"
          by (simp add: world_of_simps)
        then show ?thesis
          using stop p by blast
      qed
    qed
  qed
qed

text \<open>By induction on the responses to come, with the state of the loop left free.\<close>

lemma stargazers_loop_pages:
  "world_of (stargazers_loop owner rp limit page fetched_count stargazers response w) = Some w'
   \<Longrightarrow> \<exists>k. consumed k page w w'"
proof (induction "responses w" arbitrary: w page fetched_count stargazers response)
  case Nil
  show ?case
  proof (cases "limit_reached limit fetched_count")
    case True
    then show ?thesis
      using Nil.prems consumed_zero [of page w]
      by (auto simp: stargazers_loop_reached world_of_simps)
  next
    case False
    then show ?thesis
      using Nil.prems Nil.hyps stargazers_loop_blocked [of w limit fetched_count]
      by (simp add: world_of_simps)
  qed
next
  case (Cons x rs)
  show ?case
  proof (cases "limit_reached limit fetched_count")
    case True
    then show ?thesis
      using Cons.prems consumed_zero [of page w]
      by (auto simp: stargazers_loop_reached world_of_simps)
  next
    case False
    have w: "responses w = x # rs"
      using Cons.hyps(2) by simp
    from stargazers_loop_one_step [OF w False, of owner rp page stargazers response]
    show ?thesis
    proof (elim disjE exE conjE)
      fix w1
      assume "world_of (stargazers_loop owner rp limit page fetched_count stargazers
                          response w) = Some w1"
        and "responses w1 = rs"
        and "pages_requested (trace w1) = pages_requested (trace w) @ [page]"
      then show ?thesis
        using Cons.prems consumed_one [OF w, of w' page] by auto
    next
      fix fetched_count' stargazers' response' w1
      assume eq: "stargazers_loop owner rp limit page fetched_count stargazers response w
             = stargazers_loop owner rp limit (if supplies_next x then page + 1 else page)
                 fetched_count' stargazers' response' w1"
        and r: "responses w1 = rs"
        and p: "pages_requested (trace w1) = pages_requested (trace w) @ [page]"
      have "\<exists>k. consumed k (if supplies_next x then page + 1 else page) w1 w'"
        using Cons.hyps(1) [OF r[symmetric]] Cons.prems eq by simp
      then show ?thesis
        using consumed_step [OF w r p] by blast
    qed
  qed
qed

lemma repos_loop_blocked:
  "responses w = [] \<Longrightarrow> fetched_count < limit
   \<Longrightarrow> repos_loop username limit page per_page fetched_count repos response w = Blocked"
  by (subst repos_loop.simps) (simp add: http_get_def)

lemma repos_loop_one_step:
  assumes "responses w = x # rs" and "fetched_count < limit"
  shows "(\<exists>w1. world_of (repos_loop username limit page per_page fetched_count repos
                            response w) = Some w1
              \<and> responses w1 = rs
              \<and> pages_requested (trace w1) = pages_requested (trace w) @ [page])
       \<or> (\<exists>per_page' fetched_count' repos' response' w1.
             repos_loop username limit page per_page fetched_count repos response w
             = repos_loop username limit (if supplies_next x then page + 1 else page)
                 per_page' fetched_count' repos' response' w1
             \<and> responses w1 = rs
             \<and> pages_requested (trace w1) = pages_requested (trace w) @ [page])"
    (is "?stop \<or> ?go")
proof -
  let ?req = "GetRepos username page per_page"
  let ?w1 = "answered ?req w"
  have a: "responses ?w1 = rs"
      "pages_requested (trace ?w1) = pages_requested (trace w) @ [page]"
    using assms(1) by (simp_all add: responses_answered pages_answered)
  have retry: ?go
    if "repos_loop username limit page per_page fetched_count repos response w
        = repos_loop username limit page per_page fetched_count repos (Some r0)
            (sleep d ?w1)" and "\<not> supplies_next x" for r0 d
    by (intro exI [of _ per_page] exI [of _ fetched_count] exI [of _ repos]
          exI [of _ "Some r0"] exI [of _ "sleep d ?w1"])
       (simp add: that a responses_sleep pages_sleep)
  have stop: ?stop
    if "world_of (repos_loop username limit page per_page fetched_count repos response w)
        = Some w1" and "responses w1 = rs"
      and "pages_requested (trace w1) = pages_requested (trace w) @ [page]" for w1
    using that by blast
  show ?thesis
  proof (cases x)
    case ConnectionError
    note step = repos_loop_connection_error
                  [OF assms(1)[unfolded ConnectionError] assms(2),
                   of username page per_page repos response]
    show ?thesis
    proof (cases response)
      case None
      then have "world_of (repos_loop username limit page per_page fetched_count repos
                             response w) = Some ?w1"
        using step by (simp add: Let_def world_of_simps)
      then show ?thesis
        using stop a by blast
    next
      case (Some r0)
      show ?thesis
      proof (cases "is_rate_limit r0")
        case True
        then have "repos_loop username limit page per_page fetched_count repos response w
              = repos_loop username limit page per_page fetched_count repos (Some r0)
                  (sleep (sleep_duration r0 w) ?w1)"
          using step Some by (simp add: Let_def)
        then show ?thesis
          using retry ConnectionError by (simp add: supplies_next_simps)
      next
        case False
        then have "world_of (repos_loop username limit page per_page fetched_count repos
                               response w) = Some ?w1"
          using step Some by (simp add: Let_def world_of_simps)
        then show ?thesis
          using stop a by blast
      qed
    qed
  next
    case (Response r)
    note w = assms(1)[unfolded Response]
    show ?thesis
    proof (cases "raises_for_status r")
      case True
      then have nx: "\<not> supplies_next x"
        using Response by (simp add: supplies_next_simps)
      show ?thesis
      proof (cases "is_rate_limit r")
        case rl: True
        show ?thesis
          using retry [OF repos_loop_rate_limit [OF w rl assms(2)] nx] by (rule disjI2)
      next
        case False
        then have "other_failure r"
          using True by (simp add: other_failure_def)
        then have "world_of (repos_loop username limit page per_page fetched_count repos
                               response w) = Some ?w1"
          using repos_loop_failure [OF w _ assms(2)] by (simp add: world_of_simps)
        then show ?thesis
          using stop a by blast
      qed
    next
      case False
      let ?w2 = "paused r ?w1"
      have p: "responses ?w2 = rs"
          "pages_requested (trace ?w2) = pages_requested (trace w) @ [page]"
        using a by (simp_all add: responses_paused pages_paused)
      show ?thesis
      proof (cases "\<exists>data. json r = RepoList data")
        case True
        then obtain data where data: "json r = RepoList data"
          by blast
        note pg = repos_pagination [OF w False data assms(2),
                                    of username page per_page repos response]
        show ?thesis
        proof (cases "data \<noteq> [] \<and> has_next r
                      \<and> fetched_count + int (length data) < limit")
          case adv: True
          then have nx: "supplies_next x"
            using Response False by (simp add: supplies_next_simps)
          have "repos_loop username limit page per_page fetched_count repos response w
                = repos_loop username limit (page + 1)
                    (min (limit - (fetched_count + int (length data))) per_page)
                    (fetched_count + int (length data)) (repos @ data) (Some r)
                    (sleep REQUEST_DELAY ?w2)"
            using pg adv by simp
          then have ?go
            by (intro exI [of _ "min (limit - (fetched_count + int (length data))) per_page"]
                  exI [of _ "fetched_count + int (length data)"]
                  exI [of _ "repos @ data"] exI [of _ "Some r"]
                  exI [of _ "sleep REQUEST_DELAY ?w2"])
               (simp add: nx p responses_sleep pages_sleep)
          then show ?thesis ..
        next
          case False
          then obtain res where
            "repos_loop username limit page per_page fetched_count repos response w
             = Return res ?w2"
            using pg by auto
          then have "world_of (repos_loop username limit page per_page fetched_count repos
                                 response w) = Some ?w2"
            by (simp add: world_of_simps)
          then show ?thesis
            using stop p by blast
        qed
      next
        case no: False
        have "repos_loop username limit page per_page fetched_count repos response w
              = Raise UnexpectedBody ?w2"
          using w False no assms(2)
          by (subst repos_loop.simps)
             (auto simp: http_get_Cons check_rate_limit_paused Let_def
                   split: payload.splits)
        then have "world_of (repos_loop username limit page per_page fetched_count repos
                               response w) = Some ?w2"
          by (simp add: world_of_simps)
        then show ?thesis
          using stop p by blast
      qed
    qed
  qed
qed

lemma repos_loop_pages:
  "world_of (repos_loop username limit page per_page fetched_count repos response w) = Some w'
   \<Longrightarrow> \<exists>k. consumed k page w w'"
proof (induction "responses w" arbitrary: w page per_page fetched_count repos response)
  case Nil
  show ?case
  proof (cases "fetched_count < limit")
    case False
    then show ?thesis
      using Nil.prems consumed_zero [of page w]
      by (auto simp: repos_loop_reached world_of_simps)
  next
    case True
    then show ?thesis
      using Nil.prems Nil.hyps repos_loop_blocked [of w fetched_count limit]
      by (simp add: world_of_simps)
  qed
next
  case (Cons x rs)
  show ?case
  proof (cases "fetched_count < limit")
    case False
    then show ?thesis
      using Cons.prems consumed_zero [of page w]
      by (auto simp: repos_loop_reached world_of_simps)
  next
    case True
    have w: "responses w = x # rs"
      using Cons.hyps(2) by simp
    from repos_loop_one_step [OF w True, of username page per_page repos response]
    show ?thesis
    proof (elim disjE exE conjE)
      fix w1
      assume "world_of (repos_loop username limit page per_page fetched_count repos
                          response w) = Some w1"
        and "responses w1 = rs"
        and "pages_requested (trace w1) = pages_requested (trace w) @ [page]"
      then show ?thesis
        using Cons.prems consumed_one [OF w, of w' page] by auto
    next
      fix per_page' fetched_count' repos' response' w1
      assume eq: "repos_loop username limit page per_page fetched_count repos response w
             = repos_loop username limit (if supplies_next x then page + 1 else page)
                 per_page' fetched_count' repos' response' w1"
        and r: "responses w1 = rs"
        and p: "pages_requested (trace w1) = pages_requested (trace w) @ [page]"
      have "\<exists>k. consumed k (if supplies_next x then page + 1 else page) w1 w'"
        using Cons.hyps(1) [OF r[symmetric]] Cons.prems eq by simp
      then show ?thesis
        using consumed_step [OF w r p] by blast
    qed
  qed
qed

lemma activity_loop_blocked:
  "responses w = [] \<Longrightarrow> page \<le> max_pages
   \<Longrightarrow> activity_loop username max_pages page activities response w = Blocked"
  by (subst activity_loop.simps) (simp add: http_get_def)

lemma activity_loop_one_step:
  assumes "responses w = x # rs" and "page \<le> max_pages"
  shows "(\<exists>w1. world_of (activity_loop username max_pages page activities response w)
                = Some w1
              \<and> responses w1 = rs
              \<and> pages_requested (trace w1) = pages_requested (trace w) @ [page])
       \<or> (\<exists>activities' response' w1.
             activity_loop username max_pages page activities response w
             = activity_loop username max_pages (if supplies_next x then page + 1 else page)
                 activities' response' w1
             \<and> responses w1 = rs
             \<and> pages_requested (trace w1) = pages_requested (trace w) @ [page])"
    (is "?stop \<or> ?go")
proof -
  let ?req = "GetEvents username page"
  let ?w1 = "answered ?req w"
  have a: "responses ?w1 = rs"
      "pages_requested (trace ?w1) = pages_requested (trace w) @ [page]"
    using assms(1) by (simp_all add: responses_answered pages_answered)
  have retry: ?go
    if "activity_loop username max_pages page activities response w
        = activity_loop username max_pages page activities (Some r0) (sleep d ?w1)"
      and "\<not> supplies_next x" for r0 d
    by (intro exI [of _ activities] exI [of _ "Some r0"] exI [of _ "sleep d ?w1"])
       (simp add: that a responses_sleep pages_sleep)
  have stop: ?stop
    if "world_of (activity_loop username max_pages page activities response w) = Some w1"
      and "responses w1 = rs"
      and "pages_requested (trace w1) = pages_requested (trace w) @ [page]" for w1
    using that by blast
  show ?thesis
  proof (cases x)
    case ConnectionError
    note step = activity_loop_connection_error
                  [OF assms(1)[unfolded ConnectionError] assms(2),
                   of username activities response]
    show ?thesis
    proof (cases response)
      case None
      then have "world_of (activity_loop username max_pages page activities response w)
                 = Some ?w1"
        using step by (simp add: Let_def world_of_simps)
      then show ?thesis
        using stop a by blast
    next
      case (Some r0)
      show ?thesis
      proof (cases "is_rate_limit r0")
        case True
        then have "activity_loop username max_pages page activities response w
              = activity_loop username max_pages page activities (Some r0)
                  (sleep (sleep_duration r0 w) ?w1)"
          using step Some by (simp add: Let_def)
        then show ?thesis
          using retry ConnectionError by (simp add: supplies_next_simps)
      next
        case False
        then have "world_of (activity_loop username max_pages page activities response w)
                   = Some ?w1"
          using step Some by (simp add: Let_def world_of_simps)
        then show ?thesis
          using stop a by blast
      qed
    qed
  next
    case (Response r)
    note w = assms(1)[unfolded Response]
    show ?thesis
    proof (cases "raises_for_status r")
      case True
      then have nx: "\<not> supplies_next x"
        using Response by (simp add: supplies_next_simps)
      show ?thesis
      proof (cases "is_rate_limit r")
        case rl: True
        show ?thesis
          using retry [OF activity_loop_rate_limit [OF w rl assms(2)] nx] by (rule disjI2)
      next
        case False
        then have "other_failure r \<or> status_code r = 404"
          using True by (simp add: other_failure_def)
        then have "world_of (activity_loop username max_pages page activities response w)
                   = Some ?w1"
          using activity_loop_failure [OF w _ assms(2)] by (simp add: world_of_simps)
        then show ?thesis
          using stop a by blast
      qed
    next
      case False
      let ?w2 = "paused r ?w1"
      have p: "responses ?w2 = rs"
          "pages_requested (trace ?w2) = pages_requested (trace w) @ [page]"
        using a by (simp_all add: responses_paused pages_paused)
      show ?thesis
      proof (cases "\<exists>data. json r = EventList data")
        case True
        then obtain data where data: "json r = EventList data"
          by blast
        note pg = activity_pagination [OF w False data assms(2), of username activities response]
        show ?thesis
        proof (cases "data \<noteq> [] \<and> has_next r \<and> page < max_pages")
          case adv: True
          then have nx: "supplies_next x"
            using Response False by (simp add: supplies_next_simps)
          have "activity_loop username max_pages page activities response w
                = activity_loop username max_pages (page + 1) (activities @ data) (Some r)
                    (sleep REQUEST_DELAY ?w2)"
            using pg adv by simp
          then have ?go
            by (intro exI [of _ "activities @ data"] exI [of _ "Some r"]
                  exI [of _ "sleep REQUEST_DELAY ?w2"])
               (simp add: nx p responses_sleep pages_sleep)
          then show ?thesis ..
        next
          case False
          then obtain res where
            "activity_loop username max_pages page activities response w = Return res ?w2"
            using pg by auto
          then have "world_of (activity_loop username max_pages page activities response w)
                     = Some ?w2"
            by (simp add: world_of_simps)
          then show ?thesis
            using stop p by blast
        qed
      next
        case no: False
        have "activity_loop username max_pages page activities response w
              = Raise UnexpectedBody ?w2"
          using w False no assms(2)
          by (subst activity_loop.simps)
             (auto simp: http_get_Cons check_rate_limit_paused Let_def ok_not_404
                   split: payload.splits)
        then have "world_of (activity_loop username max_pages page activities response w)
                   = Some ?w2"
          by (simp add: world_of_simps)
        then show ?thesis
          using stop p by blast
      qed
    qed
  qed
qed

lemma activity_loop_pages:
  "world_of (activity_loop username max_pages page activities response w) = Some w'
   \<Longrightarrow> \<exists>k. consumed k page w w'"
proof (induction "responses w" arbitrary: w page activities response)
  case Nil
  show ?case
  proof (cases "page \<le> max_pages")
    case False
    then show ?thesis
      using Nil.prems consumed_zero [of page w]
      by (auto simp: activity_loop_reached world_of_simps)
  next
    case True
    then show ?thesis
      using Nil.prems Nil.hyps activity_loop_blocked [of w page max_pages]
      by (simp add: world_of_simps)
  qed
next
  case (Cons x rs)
  show ?case
  proof (cases "page \<le> max_pages")
    case False
    then show ?thesis
      using Cons.prems consumed_zero [of page w]
      by (auto simp: activity_loop_reached world_of_simps)
  next
    case True
    have w: "responses w = x # rs"
      using Cons.hyps(2) by simp
    from activity_loop_one_step [OF w True, of username activities response]
    show ?thesis
    proof (elim disjE exE conjE)
      fix w1
      assume "world_of (activity_loop username max_pages page activities response w)
              = Some w1"
        and "responses w1 = rs"
        and "pages_requested (trace w1) = pages_requested (trace w) @ [page]"
      then show ?thesis
        using Cons.prems consumed_one [OF w, of w' page] by auto
    next
      fix activities' response' w1
      assume eq: "activity_loop username max_pages page activities response w
             = activity_loop username max_pages (if supplies_next x then page + 1 else page)
                 activities' response' w1"
        and r: "responses w1 = rs"
        and p: "pages_requested (trace w1) = pages_requested (trace w) @ [page]"
      have "\<exists>k. consumed k (if supplies_next x then page + 1 else page) w1 w'"
        using Cons.hyps(1) [OF r[symmetric]] Cons.prems eq by simp
      then show ?thesis
        using consumed_step [OF w r p] by blast
    qed
  qed
qed

lemma get_stargazers_pages:
  "world_of (get_stargazers owner rp limit w) = Some w' \<Longrightarrow> \<exists>k. consumed k 1 w w'"
  unfolding get_stargazers_def by (rule stargazers_loop_pages)

lemma get_user_repos_pages:
  assumes "world_of (get_user_repos username limit w) = Some w'"
  shows "\<exists>k. consumed k 1 w w'"
proof (cases "limit \<le> 0")
  case True
  then show ?thesis
    using assms consumed_zero [of 1 w] by (auto simp: get_user_repos_def world_of_simps)
next
  case False
  then have "world_of (repos_loop username limit 1 (min limit 100) 0 [] None w) = Some w'"
    using assms
    by (auto simp: get_user_repos_def world_of_def split: outcome.splits option.splits)
  then show ?thesis
    by (rule repos_loop_pages)
qed

lemma get_user_activity_pages:
  assumes "world_of (get_user_activity username max_pages w) = Some w'"
  shows "\<exists>k. consumed k 1 w w'"
proof -
  have "world_of (activity_loop username max_pages 1 [] None w) = Some w'"
    using assms
    by (auto simp: get_user_activity_def world_of_def
             split: outcome.splits option.splits if_splits)
  then show ?thesis
    by (rule activity_loop_pages)
qed

subsection \<open>Pagination\<close>

text \<open>
  Claim C4: in get\_stargazers, get\_user\_repos and get\_user\_activity, an iteration that
  gets a page goes on to the next page exactly when the page is not empty, the response
  has a \<^verbatim>\<open>next\<close> link and the item limit (or max\_pages) is not reached; otherwise the
  loop ends there: the call returns in the world right after that response, with no
  further request. Over a whole call that ends, the pages asked for are page 1 and then,
  after each response, the next page if that response was accepted and had a \<^verbatim>\<open>next\<close>
  link and the same page if not.
\<close>

theorem pagination_follows_next_link:
  assumes "responses ws = Response rs # rss" and "\<not> raises_for_status rs"
    and "json rs = StargazerList sd" and "\<not> limit_reached limit fetched_count"
    and "responses wr = Response rr # rsr" and "\<not> raises_for_status rr"
    and "json rr = RepoList rd" and "repo_count < repo_limit"
    and "responses wa = Response ra # rsa" and "\<not> raises_for_status ra"
    and "json ra = EventList ad" and "page \<le> max_pages"
    and "world_of (get_stargazers owner rp limit vs) = Some vs'"
    and "world_of (get_user_repos username repo_limit vr) = Some vr'"
    and "world_of (get_user_activity username max_pages va) = Some va'"
  shows "(if sd \<noteq> [] \<and> has_next rs
             \<and> \<not> limit_reached limit (fetched_count + int (length sd))
          then stargazers_loop owner rp limit page fetched_count stargazers response ws
               = stargazers_loop owner rp limit (page + 1) (fetched_count + int (length sd))
                   (stargazers @ sd) (Some rs)
                   (sleep REQUEST_DELAY
                      (paused rs (answered (GetStargazers owner rp page
                                              (current_per_page limit fetched_count)) ws)))
          else \<exists>res. stargazers_loop owner rp limit page fetched_count stargazers response ws
               = Return res
                   (paused rs (answered (GetStargazers owner rp page
                                           (current_per_page limit fetched_count)) ws)))
       \<and> (if rd \<noteq> [] \<and> has_next rr \<and> repo_count + int (length rd) < repo_limit
          then repos_loop username repo_limit page per_page repo_count repos response wr
               = repos_loop username repo_limit (page + 1)
                   (min (repo_limit - (repo_count + int (length rd))) per_page)
                   (repo_count + int (length rd)) (repos @ rd) (Some rr)
                   (sleep REQUEST_DELAY
                      (paused rr (answered (GetRepos username page per_page) wr)))
          else \<exists>res. repos_loop username repo_limit page per_page repo_count repos response wr
               = Return res (paused rr (answered (GetRepos username page per_page) wr)))
       \<and> (if ad \<noteq> [] \<and> has_next ra \<and> page < max_pages
          then activity_loop username max_pages page activities response wa
               = activity_loop username max_pages (page + 1) (activities @ ad) (Some ra)
                   (sleep REQUEST_DELAY (paused ra (answered (GetEvents username page) wa)))
          else \<exists>res. activity_loop username max_pages page activities response wa
               = Return res (paused ra (answered (GetEvents username page) wa)))
       \<and> (\<exists>k. consumed k 1 vs vs')
       \<and> (\<exists>k. consumed k 1 vr vr')
       \<and> (\<exists>k. consumed k 1 va va')"
  using stargazers_pagination [OF assms(1-4), of owner rp page stargazers response]
    repos_pagination [OF assms(5-8), of username page per_page repos response]
    activity_pagination [OF assms(9-12), of username activities response]
    get_stargazers_pages [OF assms(13)] get_user_repos_pages [OF assms(14)]
    get_user_activity_pages [OF assms(15)]
  by simp

lemma two_pages_asked:
  "world_of (get_stargazers ''o'' ''r'' (Some 3) two_stargazer_pages)
   = Some \<lparr>responses = [], now = 1 / 2,
           trace = [Request (GetStargazers ''o'' ''r'' 1 3), Sleep (1 / 2),
                    Request (GetStargazers ''o'' ''r'' 2 2)]\<rparr>"
  "world_of (get_user_repos ''bob'' 5 two_repo_pages)
   = Some \<lparr>responses = [], now = 1000,
           trace = [Request (GetRepos ''bob'' 1 5), Sleep (1 / 2),
                    Request (GetRepos ''bob'' 2 4), Sleep (1999 / 2),
                    Request (GetRepos ''bob'' 2 4)]\<rparr>"
  "world_of (get_user_activity ''bob'' 2 two_event_pages)
   = Some \<lparr>responses = [], now = 1 / 2,
           trace = [Request (GetEvents ''bob'' 1), Sleep (1 / 2),
                    Request (GetEvents ''bob'' 2)]\<rparr>"
  by code_simp+

theorem pagination_follows_next_link_witness:
  "stargazers_loop ''o'' ''r'' (Some 3) 1 0 [] None
     (world_with [Response (ok_response 5000 True (StargazerList [\<lparr>login = ''a''\<rparr>]))])
   = stargazers_loop ''o'' ''r'' (Some 3) 2 1 [\<lparr>login = ''a''\<rparr>]
       (Some (ok_response 5000 True (StargazerList [\<lparr>login = ''a''\<rparr>])))
       \<lparr>responses = [], now = 1 / 2,
        trace = [Request (GetStargazers ''o'' ''r'' 1 3), Sleep (1 / 2)]\<rparr>
   \<and> activity_loop ''bob'' 2 1 [] None
       (world_with [Response (ok_response 5000 True
          (EventList [\<lparr>a_type = None, a_created_at = None, a_repo_name = None\<rparr>]))])
   = activity_loop ''bob'' 2 2 [\<lparr>a_type = None, a_created_at = None, a_repo_name = None\<rparr>]
       (Some (ok_response 5000 True
          (EventList [\<lparr>a_type = None, a_created_at = None, a_repo_name = None\<rparr>])))
       \<lparr>responses = [], now = 1 / 2,
        trace = [Request (GetEvents ''bob'' 1), Sleep (1 / 2)]\<rparr>
   \<and> (\<exists>k. consumed k 1 two_stargazer_pages
             \<lparr>responses = [], now = 1 / 2,
              trace = [Request (GetStargazers ''o'' ''r'' 1 3), Sleep (1 / 2),
                       Request (GetStargazers ''o'' ''r'' 2 2)]\<rparr>)
   \<and> (\<exists>k. consumed k 1 two_repo_pages
             \<lparr>responses = [], now = 1000,
              trace = [Request (GetRepos ''bob'' 1 5), Sleep (1 / 2),
                       Request (GetRepos ''bob'' 2 4), Sleep (1999 / 2),
                       Request (GetRepos ''bob'' 2 4)]\<rparr>)"
  using pagination_follows_next_link
      [where ws = "world_with [Response (ok_response 5000 True
                     (StargazerList [\<lparr>login = ''a''\<rparr>]))]"
         and rs = "ok_response 5000 True (StargazerList [\<lparr>login = ''a''\<rparr>])" and rss = "[]"
         and sd = "[\<lparr>login = ''a''\<rparr>]" and limit = "Some 3" and fetched_count = 0
         and wr = "world_with [Response (ok_response 5000 True
                     (RepoList [\<lparr>r_name = ''a'', r_full_name = ''bob/a'',
                                r_description = None\<rparr>]))]"
         and rr = "ok_response 5000 True
                     (RepoList [\<lparr>r_name = ''a'', r_full_name = ''bob/a'',
                                r_description = None\<rparr>])"
         and rsr = "[]"
         and rd = "[\<lparr>r_name = ''a'', r_full_name = ''bob/a'', r_description = None\<rparr>]"
         and repo_count = 0 and repo_limit = 5
         and wa = "world_with [Response (ok_response 5000 True
                     (EventList [\<lparr>a_type = None, a_created_at = None,
                                 a_repo_name = None\<rparr>]))]"
         and ra = "ok_response 5000 True
                     (EventList [\<lparr>a_type = None, a_created_at = None, a_repo_name = None\<rparr>])"
         and rsa = "[]"
         and ad = "[\<lparr>a_type = None, a_created_at = None, a_repo_name = None\<rparr>]"
         and page = 1 and max_pages = 2 and username = "''bob''" and owner = "''o''"
         and rp = "''r''" and stargazers = "[]" and response = None and activities = "[]"
         and vs = two_stargazer_pages and vr = two_repo_pages and va = two_event_pages
         and vs' = "\<lparr>responses = [], now = 1 / 2,
                     trace = [Request (GetStargazers ''o'' ''r'' 1 3), Sleep (1 / 2),
                              Request (GetStargazers ''o'' ''r'' 2 2)]\<rparr>"
         and vr' = "\<lparr>responses = [], now = 1000,
                     trace = [Request (GetRepos ''bob'' 1 5), Sleep (1 / 2),
                              Request (GetRepos ''bob'' 2 4), Sleep (1999 / 2),
                              Request (GetRepos ''bob'' 2 4)]\<rparr>"
         and va' = "\<lparr>responses = [], now = 1 / 2,
                     trace = [Request (GetEvents ''bob'' 1), Sleep (1 / 2),
                              Request (GetEvents ''bob'' 2)]\<rparr>"]
    two_pages_asked
  by (simp add: world_with_def ok_response_def raises_for_status_def limit_reached_def
        current_per_page_def paused_def remaining_def sleep_def answered_def
        REQUEST_DELAY_def)

subsection \<open>The item limit\<close>

lemma py_take_length: "0 \<le> n \<Longrightarrow> int (length (py_take n xs)) \<le> n"
  by (simp add: py_take_def)

lemma stargazers_loop_length:
  "stargazers_loop owner rp (Some l) page fetched_count stargazers response w = Return res w'
   \<Longrightarrow> fetched_count = int (length stargazers) \<Longrightarrow> fetched_count \<le> max 0 l
   \<Longrightarrow> int (length res) \<le> max 0 l"
proof (induction owner rp "Some l" page fetched_count stargazers response w
       rule: stargazers_loop.induct)
  case (1 owner rp page fetched_count stargazers response w)
  show ?case
  proof (cases "l - fetched_count \<le> 0")
    case True
    then show ?thesis
      using "1.prems" by (subst (asm) stargazers_loop.simps) auto
  next
    case False
    then show ?thesis
      using "1.prems" "1.hyps"
      by (subst (asm) stargazers_loop.simps)
         (auto simp add: Let_def py_take_length
               split: option.splits prod.splits http_result.splits if_splits payload.splits)
  qed
qed

lemma stargazers_loop_returns:
  "list_all stargazer_page (responses w) \<Longrightarrow> nat (l - fetched_count) \<le> length (responses w)
   \<Longrightarrow> \<exists>res w'. stargazers_loop owner rp (Some l) page fetched_count stargazers response w
                 = Return res w'"
proof (induction "responses w" arbitrary: w page fetched_count stargazers response)
  case Nil
  then have "limit_reached (Some l) fetched_count"
    by (simp add: limit_reached_def)
  then show ?case
    by (simp add: stargazers_loop_reached)
next
  case (Cons x rs)
  show ?case
  proof (cases "limit_reached (Some l) fetched_count")
    case True
    then show ?thesis
      by (simp add: stargazers_loop_reached)
  next
    case False
    have w: "responses w = x # rs"
      using Cons.hyps(2) by simp
    obtain r data where x: "x = Response r" "\<not> raises_for_status r"
        "json r = StargazerList data"
      using Cons.prems(1) w
      by (auto simp: stargazer_page_def split: http_result.splits payload.splits)
    let ?w2 = "paused r (answered (GetStargazers owner rp page
                                     (current_per_page (Some l) fetched_count)) w)"
    have step: "stargazers_loop owner rp (Some l) page fetched_count stargazers response w
       = (if data = [] then Return stargazers ?w2
          else if limit_reached (Some l) (fetched_count + int (length data))
          then Return (py_take (the (Some l)) (stargazers @ data)) ?w2
          else if \<not> has_next r then Return (stargazers @ data) ?w2
          else stargazers_loop owner rp (Some l) (page + 1)
                 (fetched_count + int (length data)) (stargazers @ data) (Some r)
                 (sleep REQUEST_DELAY ?w2))"
      using stargazers_loop_success [OF w[unfolded x(1)] x(2) x(3) False]
      by (simp add: Let_def)
    show ?thesis
    proof (cases "data \<noteq> [] \<and> has_next r
                  \<and> \<not> limit_reached (Some l) (fetched_count + int (length data))")
      case True
      have rs: "rs = responses (sleep REQUEST_DELAY ?w2)"
        by (simp add: responses_sleep responses_paused responses_answered w)
      have all: "list_all stargazer_page (responses (sleep REQUEST_DELAY ?w2))"
        using Cons.prems(1) w rs by simp
      have "1 \<le> int (length data)"
        using True by (cases data) auto
      then have "nat (l - (fetched_count + int (length data))) \<le> length rs"
        using Cons.prems(2) w by simp
      then have enough: "nat (l - (fetched_count + int (length data)))
          \<le> length (responses (sleep REQUEST_DELAY ?w2))"
        using rs by simp
      show ?thesis
        using Cons.hyps(1) [OF rs all enough] step True by simp
    next
      case False
      then show ?thesis
        using step by auto
    qed
  qed
qed

lemma get_user_repos_length:
  "get_user_repos username limit w = Return (Some repos) w'
   \<Longrightarrow> int (length repos) \<le> max 0 limit"
  by (auto simp: get_user_repos_def py_take_def
           split: if_splits outcome.splits option.splits)

text \<open>
  Claim C5, as the code has it: for a non-None limit, the list that get\_stargazers returns
  has at most \<open>max 0 limit\<close> elements, whatever the responses are, and it does return when
  the responses to come are at least \<open>limit\<close> pages of stargazers; the list that
  get\_user\_repos returns has at most \<open>max 0 limit\<close> pairs.
\<close>

theorem fetch_limits:
  "(get_stargazers owner rp (Some limit) w = Return stargazers w'
      \<longrightarrow> int (length stargazers) \<le> max 0 limit)
   \<and> (list_all stargazer_page (responses w) \<and> nat limit \<le> length (responses w)
      \<longrightarrow> (\<exists>res v. get_stargazers owner rp (Some limit) w = Return res v))
   \<and> (get_user_repos username limit u = Return (Some repos) u'
      \<longrightarrow> int (length repos) \<le> max 0 limit)"
  using stargazers_loop_length [of owner rp limit 1 0 "[]" None w stargazers w']
    stargazers_loop_returns [of w limit 0 owner rp 1 "[]" None]
    get_user_repos_length [of username limit u repos u']
  by (simp add: get_stargazers_def)

lemma two_for_one:
  "get_stargazers ''o'' ''r'' (Some 1)
     (world_with [Response (ok_response 5000 True
                    (StargazerList [\<lparr>login = ''a''\<rparr>, \<lparr>login = ''b''\<rparr>]))])
   = Return [\<lparr>login = ''a''\<rparr>]
       \<lparr>responses = [], now = 0, trace = [Request (GetStargazers ''o'' ''r'' 1 1)]\<rparr>"
  by code_simp

lemma two_repos_for_one:
  "get_user_repos ''bob'' 1
     (world_with [Response (ok_response 5000 True
        (RepoList [\<lparr>r_name = ''a'', r_full_name = ''bob/a'', r_description = None\<rparr>,
                   \<lparr>r_name = ''b'', r_full_name = ''bob/b'', r_description = Some ''x''\<rparr>]))])
   = Return (Some [(''a'', [])])
       \<lparr>responses = [], now = 0, trace = [Request (GetRepos ''bob'' 1 1)]\<rparr>"
  by code_simp

lemma two_is_page:
  "list_all stargazer_page
     [Response (ok_response 5000 True (StargazerList [\<lparr>login = ''a''\<rparr>, \<lparr>login = ''b''\<rparr>]))]"
  by code_simp

theorem fetch_limits_witness:
  "get_stargazers ''o'' ''r'' (Some 1)
     (world_with [Response (ok_response 5000 True
                    (StargazerList [\<lparr>login = ''a''\<rparr>, \<lparr>login = ''b''\<rparr>]))])
   = Return [\<lparr>login = ''a''\<rparr>]
       \<lparr>responses = [], now = 0, trace = [Request (GetStargazers ''o'' ''r'' 1 1)]\<rparr>
   \<and> int (length [\<lparr>login = ''a''\<rparr>]) \<le> max 0 1
   \<and> int (length [(''a'', [] :: string)]) \<le> max 0 1"
  using fetch_limits
      [where owner = "''o''" and rp = "''r''" and limit = 1
         and w = "world_with [Response (ok_response 5000 True
                    (StargazerList [\<lparr>login = ''a''\<rparr>, \<lparr>login = ''b''\<rparr>]))]"
         and stargazers = "[\<lparr>login = ''a''\<rparr>]"
         and w' = "\<lparr>responses = [], now = 0,
                    trace = [Request (GetStargazers ''o'' ''r'' 1 1)]\<rparr>"
         and username = "''bob''"
         and u = "world_with [Response (ok_response 5000 True
        (RepoList [\<lparr>r_name = ''a'', r_full_name = ''bob/a'', r_description = None\<rparr>,
                   \<lparr>r_name = ''b'', r_full_name = ''bob/b'', r_description = Some ''x''\<rparr>]))]"
         and repos = "[(''a'', [])]"
         and u' = "\<lparr>responses = [], now = 0, trace = [Request (GetRepos ''bob'' 1 1)]\<rparr>"]
    two_for_one two_repos_for_one two_is_page
  by (simp add: world_with_def)

text \<open>
  The claim as written fails for a negative limit: the result is the empty list, whose
  length 0 is not at most -1.
\<close>

theorem negative_limit_not_a_bound:
  "get_stargazers ''o'' ''r'' (Some (- 1)) (world_with []) = Return [] (world_with [])
   \<and> \<not> int (length ([] :: stargazer list)) \<le> - 1"
  by code_simp

subsection \<open>Delays and pauses\<close>

text \<open>
  Claim C6, as the code has it: after a response that \<^verbatim>\<open>raise_for_status\<close> accepts,
  get\_user\_details and get\_starred\_repos pause 60 seconds if the remaining quota (0 when
  the header is absent) is below 10 and then sleep 0.5 seconds before they return;
  get\_stargazers, get\_user\_repos and get\_user\_activity pause in the same way and then
  sleep 0.5 seconds before the request for the next page.
\<close>

theorem delays_after_successful_response:
  assumes "responses wu = Response ru # rsu" and "\<not> raises_for_status ru"
    and "json ru = UserObject d"
    and "responses wt = Response rt # rst" and "\<not> raises_for_status rt"
    and "json rt = RepoList l"
    and "responses ws = Response rs # rss" and "\<not> raises_for_status rs"
    and "json rs = StargazerList sd" and "sd \<noteq> []" and "has_next rs"
    and "\<not> limit_reached limit (fetched_count + int (length sd))"
    and "responses wr = Response rr # rsr" and "\<not> raises_for_status rr"
    and "json rr = RepoList rd" and "rd \<noteq> []" and "has_next rr"
    and "repo_count + int (length rd) < repo_limit"
    and "responses wa = Response ra # rsa" and "\<not> raises_for_status ra"
    and "json ra = EventList ad" and "ad \<noteq> []" and "has_next ra" and "page < max_pages"
  shows "get_user_details username wu = Return (Some d) (delayed ru (GetUser username) wu)
       \<and> get_starred_repos username wt
           = Return (Some (map (\<lambda>rp. (r_full_name rp, description_or_empty rp)) l))
               (delayed rt (GetStarred username) wt)
       \<and> stargazers_loop owner rp limit page fetched_count stargazers response ws
           = stargazers_loop owner rp limit (page + 1) (fetched_count + int (length sd))
               (stargazers @ sd) (Some rs)
               (delayed rs (GetStargazers owner rp page (current_per_page limit fetched_count))
                  ws)
       \<and> repos_loop username repo_limit page per_page repo_count repos response wr
           = repos_loop username repo_limit (page + 1)
               (min (repo_limit - (repo_count + int (length rd))) per_page)
               (repo_count + int (length rd)) (repos @ rd) (Some rr)
               (delayed rr (GetRepos username page per_page) wr)
       \<and> activity_loop username max_pages page activities response wa
           = activity_loop username max_pages (page + 1) (activities @ ad) (Some ra)
               (delayed ra (GetEvents username page) wa)"
proof -
  have 1: "\<not> limit_reached limit fetched_count"
    using assms(12) by (rule limit_reached_mono)
  have 2: "repo_count < repo_limit"
    using assms(18) by simp
  have 3: "page \<le> max_pages"
    using assms(24) by simp
  show ?thesis
    using stargazers_pagination [OF assms(7-9) 1, of owner rp page stargazers response]
      repos_pagination [OF assms(13-15) 2, of username page per_page repos response]
      activity_pagination [OF assms(19-21) 3, of username activities response]
      assms
    by (simp add: get_user_details_success get_starred_repos_success delayed_def REQUEST_DELAY_def)
qed

theorem delays_after_successful_response_witness:
  "get_user_details ''bob'' (page_world (UserObject [(''followers'', PInt 1)]))
     = Return (Some [(''followers'', PInt 1)])
         \<lparr>responses = [], now = 121 / 2,
          trace = [Request (GetUser ''bob''), Sleep 60, Sleep (1 / 2)]\<rparr>
   \<and> stargazers_loop ''o'' ''r'' None 1 0 [] None (page_world (StargazerList [\<lparr>login = ''a''\<rparr>]))
     = stargazers_loop ''o'' ''r'' None 2 1 [\<lparr>login = ''a''\<rparr>]
         (Some (ok_response 5 True (StargazerList [\<lparr>login = ''a''\<rparr>])))
         \<lparr>responses = [], now = 121 / 2,
          trace = [Request (GetStargazers ''o'' ''r'' 1 100), Sleep 60, Sleep (1 / 2)]\<rparr>"
  using delays_after_successful_response
      [where wu = "page_world (UserObject [(''followers'', PInt 1)])"
         and ru = "ok_response 5 True (UserObject [(''followers'', PInt 1)])" and rsu = "[]"
         and d = "[(''followers'', PInt 1)]"
         and wt = "page_world (RepoList [])" and rt = "ok_response 5 True (RepoList [])"
         and rst = "[]" and l = "[]"
         and ws = "page_world (StargazerList [\<lparr>login = ''a''\<rparr>])"
         and rs = "ok_response 5 True (StargazerList [\<lparr>login = ''a''\<rparr>])" and rss = "[]"
         and sd = "[\<lparr>login = ''a''\<rparr>]" and limit = None and fetched_count = 0
         and wr = "page_world (RepoList [\<lparr>r_name = ''a'', r_full_name = ''bob/a'', r_description = None\<rparr>])"
         and rr = "ok_response 5 True (RepoList [\<lparr>r_name = ''a'', r_full_name = ''bob/a'', r_description = None\<rparr>])"
         and rsr = "[]"
         and rd = "[\<lparr>r_name = ''a'', r_full_name = ''bob/a'', r_description = None\<rparr>]"
         and repo_count = 0 and repo_limit = 5
         and wa = "page_world (EventList [\<lparr>a_type = None, a_created_at = None, a_repo_name = None\<rparr>])"
         and ra = "ok_response 5 True (EventList [\<lparr>a_type = None, a_created_at = None, a_repo_name = None\<rparr>])"
         and rsa = "[]"
         and ad = "[\<lparr>a_type = None, a_created_at = None, a_repo_name = None\<rparr>]"
         and page = 1 and max_pages = 2 and username = "''bob''" and owner = "''o''"
         and rp = "''r''" and stargazers = "[]" and response = None]
  by (simp add: page_world_def world_with_def ok_response_def raises_for_status_def
        limit_reached_def current_per_page_def delayed_def paused_def remaining_def
        sleep_def answered_def)

text \<open>
  Claim C6 as written fails on a response with an error status: the header says 5 requests
  remain, and get\_user\_details returns with no sleep at all in the trace.
\<close>

theorem no_pause_after_error_response:
  "remaining (error_response 500 ''Server Error'') = 5
   \<and> get_user_details ''bob'' (world_with [Response (error_response 500 ''Server Error'')])
     = Return None \<lparr>responses = [], now = 0, trace = [Request (GetUser ''bob'')]\<rparr>"
  by code_simp

subsection \<open>A limit that is not positive\<close>

text \<open>
  Claim C8: for every username and every limit less than or equal to 0, get\_user\_repos
  returns the empty list at once and issues no HTTP request: the world, with its trace and
  its responses to come, is the one it was called in.
\<close>

theorem get_user_repos_nonpositive_limit:
  "limit \<le> 0 \<Longrightarrow> get_user_repos username limit w = Return (Some []) w"
  by (simp add: get_user_repos_def)

theorem get_user_repos_nonpositive_limit_witness:
  "get_user_repos ''bob'' 0 (world_with [ConnectionError])
     = Return (Some []) (world_with [ConnectionError])"
  using get_user_repos_nonpositive_limit [of 0 "''bob''" "world_with [ConnectionError]"]
  by simp

subsection \<open>The analysis record of one stargazer\<close>

lemma field_of_update:
  "field_of (AList.update k v user_data) k' = (if k' = k then Some v else field_of user_data k')"
  by (simp add: field_of_def update_conv')

lemma bind_Return:
  "bind m f = Return b w' \<longleftrightarrow> (\<exists>a w1. m = Return a w1 \<and> f a w1 = Return b w')"
  by (cases m) (auto simp: bind_def)

lemma bind_ReturnE:
  assumes "bind m f = Return b w'"
  obtains a w1 where "m = Return a w1" and "f a w1 = Return b w'"
  using assms by (cases m) (auto simp: bind_def)

lemma bind_Return_eq: "bind (Return a w) f = f a w"
  by (simp add: bind_def)

lemma default_user_data_fields:
  "field_of (default_user_data lg) ''login'' = Some (PStr lg)"
  "field_of (default_user_data lg) ''starred_repo_status'' = Some (PStr ''Error'')"
  "field_of (default_user_data lg) ''total_starred_count'' = None"
  by (simp_all add: default_user_data_def field_of_def)

lemma update_from_details_fields:
  "field_of (update_from_details details (default_user_data lg)) ''login'' = Some (PStr lg)"
  "field_of (update_from_details details (default_user_data lg)) ''starred_repo_status''
     = Some (PStr ''Error'')"
  "field_of (update_from_details details (default_user_data lg)) ''total_starred_count'' = None"
  by (simp_all add: update_from_details_def Let_def field_of_update default_user_data_fields)

lemma fetch_owned_repos_keeps:
  assumes "fetch_owned_repos lg user_data c w = Return (user_data', c') w'"
  shows "analysis_results c' = analysis_results c
       \<and> (\<exists>v1 v2. user_data' = AList.update ''top_5_repos_descriptions'' v2
                                  (AList.update ''top_5_repos'' v1 user_data))"
proof (cases "map_of user_data ''has_public_repos'' = Some (PBool True)")
  case False
  then show ?thesis
    using assms by (auto simp: fetch_owned_repos_def)
next
  case True
  then have "bind (get_user_repos lg 5 w) (\<lambda>top_5_repos_list w'.
          case top_5_repos_list of
            None \<Rightarrow>
              Return (AList.update ''top_5_repos_descriptions'' (PStr ''Error fetching repos'')
                        (AList.update ''top_5_repos'' (PStr ''Error fetching repos'') user_data),
                      c) w'
          | Some l \<Rightarrow>
              let repo_names = map fst l;
                  repo_descriptions = map snd l;
                  user_data = AList.update ''top_5_repos''
                     (PStr (if repo_names \<noteq> [] then join '', '' repo_names else ''None''))
                     user_data;
                  user_data = AList.update ''top_5_repos_descriptions''
                     (PStr (if repo_descriptions \<noteq> [] then join '' | '' repo_descriptions
                            else ''None''))
                     user_data
              in Return (user_data,
                         c\<lparr>user_owned_repos_map := AList.update lg l (user_owned_repos_map c)\<rparr>)
                   w') = Return (user_data', c') w'"
    using assms by (simp add: fetch_owned_repos_def)
  then obtain res w1 where
    "(case res of
            None \<Rightarrow>
              Return (AList.update ''top_5_repos_descriptions'' (PStr ''Error fetching repos'')
                        (AList.update ''top_5_repos'' (PStr ''Error fetching repos'') user_data),
                      c) w1
          | Some l \<Rightarrow>
              let repo_names = map fst l;
                  repo_descriptions = map snd l;
                  user_data = AList.update ''top_5_repos''
                     (PStr (if repo_names \<noteq> [] then join '', '' repo_names else ''None''))
                     user_data;
                  user_data = AList.update ''top_5_repos_descriptions''
                     (PStr (if repo_descriptions \<noteq> [] then join '' | '' repo_descriptions
                            else ''None''))
                     user_data
              in Return (user_data,
                         c\<lparr>user_owned_repos_map := AList.update lg l (user_owned_repos_map c)\<rparr>)
                   w1) = Return (user_data', c') w'"
    by (rule bind_ReturnE)
  then show ?thesis
    by (cases res) (auto simp: Let_def)
qed

lemma fetch_activity_keeps:
  assumes "fetch_activity lg starred_repos_list user_data c w = Return (user_data', c') w'"
  shows "analysis_results c' = analysis_results c
       \<and> (\<exists>v. user_data' = AList.update ''user_activity'' v user_data)"
  using assms
  by (auto simp: fetch_activity_def bind_Return Let_def split: if_splits option.splits)

lemma fetch_starred_result:
  assumes "fetch_starred lg user_data c w = Return (user_data', c', starred_repos_list) w'"
  shows "\<exists>w1 total_starred_count.
           get_starred_repos lg w = Return starred_repos_list w1
           \<and> get_total_starred_count lg w1 = Return total_starred_count w'
           \<and> user_data' = record_starred starred_repos_list total_starred_count user_data
           \<and> analysis_results c' = analysis_results c"
  using assms
  by (auto simp: fetch_starred_def bind_Return split: option.splits)

lemma record_starred_status:
  "field_of user_data ''starred_repo_status'' = Some (PStr ''Error'')
   \<Longrightarrow> field_of (record_starred starred_repos_list tot user_data) ''starred_repo_status''
       = Some (PStr (case starred_repos_list of
                       None \<Rightarrow> ''Error''
                     | Some [] \<Rightarrow> ''Private (No Access to Starred Repo)''
                     | Some (x # xs) \<Rightarrow> ''Public (Has Starred Repos)''))"
  by (simp add: record_starred_def Let_def field_of_update split: option.splits list.splits)

lemma record_starred_count:
  "field_of user_data ''total_starred_count'' = None
   \<Longrightarrow> field_of (record_starred starred_repos_list tot user_data) ''total_starred_count''
       = (case starred_repos_list of None \<Rightarrow> None | Some l \<Rightarrow> Some tot)"
  by (simp add: record_starred_def Let_def field_of_update split: option.splits)



lemma process_stargazer_enriched:
  assumes "process_stargazer sg c w = Return c' w'"
    and "get_user_details (login sg) w = Return (Some (d # ds)) w1"
  obtains ud2 c2 w2 ud3 c3 st w3 ud4 c4 where
    "fetch_owned_repos (login sg)
       (update_from_details (d # ds) (default_user_data (login sg))) c w1
     = Return (ud2, c2) w2"
    and "fetch_starred (login sg) ud2 c2 w2 = Return (ud3, c3, st) w3"
    and "fetch_activity (login sg) st ud3 c3 w3 = Return (ud4, c4) w'"
    and "c' = c4\<lparr>analysis_results := analysis_results c4 @ [ud4]\<rparr>"
proof -
  have "bind (fetch_owned_repos (login sg)
                (update_from_details (d # ds) (default_user_data (login sg))) c w1)
          (\<lambda>(user_data, c) w2.
             bind (fetch_starred (login sg) user_data c w2)
               (\<lambda>(user_data, c, starred_repos_list) w3.
                  bind (fetch_activity (login sg) starred_repos_list user_data c w3)
                    (\<lambda>(user_data, c) w4.
                       Return (c\<lparr>analysis_results := analysis_results c @ [user_data]\<rparr>) w4)))
        = Return c' w'"
    using assms by (simp add: process_stargazer_def bind_Return_eq Let_def)
  then obtain a w2 where
      a: "fetch_owned_repos (login sg)
            (update_from_details (d # ds) (default_user_data (login sg))) c w1
          = Return a w2"
      and "(case a of (user_data, c) \<Rightarrow> \<lambda>w2.
             bind (fetch_starred (login sg) user_data c w2)
               (\<lambda>(user_data, c, starred_repos_list) w3.
                  bind (fetch_activity (login sg) starred_repos_list user_data c w3)
                    (\<lambda>(user_data, c) w4.
                       Return (c\<lparr>analysis_results := analysis_results c @ [user_data]\<rparr>) w4)))
           w2 = Return c' w'"
    by (rule bind_ReturnE)
  then have "bind (fetch_starred (login sg) (fst a) (snd a) w2)
               (\<lambda>(user_data, c, starred_repos_list) w3.
                  bind (fetch_activity (login sg) starred_repos_list user_data c w3)
                    (\<lambda>(user_data, c) w4.
                       Return (c\<lparr>analysis_results := analysis_results c @ [user_data]\<rparr>) w4))
             = Return c' w'"
    by (simp add: case_prod_beta)
  then obtain b w3 where
      b: "fetch_starred (login sg) (fst a) (snd a) w2 = Return b w3"
      and "(case b of (user_data, c, starred_repos_list) \<Rightarrow> \<lambda>w3.
              bind (fetch_activity (login sg) starred_repos_list user_data c w3)
                (\<lambda>(user_data, c) w4.
                   Return (c\<lparr>analysis_results := analysis_results c @ [user_data]\<rparr>) w4))
           w3 = Return c' w'"
    by (rule bind_ReturnE)
  then have "bind (fetch_activity (login sg) (snd (snd b)) (fst b) (fst (snd b)) w3)
               (\<lambda>(user_data, c) w4.
                  Return (c\<lparr>analysis_results := analysis_results c @ [user_data]\<rparr>) w4)
             = Return c' w'"
    by (simp add: case_prod_beta)
  then obtain e w4 where
      e: "fetch_activity (login sg) (snd (snd b)) (fst b) (fst (snd b)) w3 = Return e w4"
      and "(case e of (user_data, c) \<Rightarrow> \<lambda>w4.
              Return (c\<lparr>analysis_results := analysis_results c @ [user_data]\<rparr>) w4)
           w4 = Return c' w'"
    by (rule bind_ReturnE)
  then have fin: "w4 = w'"
      "c' = (snd e)\<lparr>analysis_results := analysis_results (snd e) @ [fst e]\<rparr>"
    by (auto simp: case_prod_beta)
  show ?thesis
    using that [of "fst a" "snd a" w2 "fst b" "fst (snd b)" "snd (snd b)" w3 "fst e" "snd e"]
      a b e fin
    by simp
qed




text \<open>
  Claim C10: for a stargazer whose user details were fetched (a dict that is not empty),
  the record that the loop body appends has starred\_repo\_status
  \<^verbatim>\<open>Private (No Access to Starred Repo)\<close> exactly when get\_starred\_repos returned the
  empty list, \<^verbatim>\<open>Public (Has Starred Repos)\<close> exactly when it returned a list that is not
  empty, and still \<^verbatim>\<open>Error\<close> when it returned \<^verbatim>\<open>None\<close>; the key total\_starred\_count is
  in the record exactly in the first two cases. The call of get\_starred\_repos is the one
  made in the world that the step for the owned repositories leaves.
\<close>

theorem starred_status_follows_starred_repos:
  assumes "get_user_details (login sg) w = Return (Some (d # ds)) w1"
    and "process_stargazer sg c w = Return c' w'"
  shows "\<exists>ud2 c2 w2 starred_repos_list w3 user_data.
           fetch_owned_repos (login sg)
             (update_from_details (d # ds) (default_user_data (login sg))) c w1
           = Return (ud2, c2) w2
         \<and> get_starred_repos (login sg) w2 = Return starred_repos_list w3
         \<and> analysis_results c' = analysis_results c @ [user_data]
         \<and> (field_of user_data ''starred_repo_status''
              = Some (PStr ''Private (No Access to Starred Repo)'')
            \<longleftrightarrow> starred_repos_list = Some [])
         \<and> (field_of user_data ''starred_repo_status''
              = Some (PStr ''Public (Has Starred Repos)'')
            \<longleftrightarrow> (\<exists>x xs. starred_repos_list = Some (x # xs)))
         \<and> (starred_repos_list = None
            \<longrightarrow> field_of user_data ''starred_repo_status'' = Some (PStr ''Error''))
         \<and> (field_of user_data ''total_starred_count'' \<noteq> None
            \<longleftrightarrow> starred_repos_list \<noteq> None)"
proof -
  obtain ud2 c2 w2 ud3 c3 st w3 ud4 c4 where
      owned: "fetch_owned_repos (login sg)
                (update_from_details (d # ds) (default_user_data (login sg))) c w1
              = Return (ud2, c2) w2"
      and starred: "fetch_starred (login sg) ud2 c2 w2 = Return (ud3, c3, st) w3"
      and act: "fetch_activity (login sg) st ud3 c3 w3 = Return (ud4, c4) w'"
      and c': "c' = c4\<lparr>analysis_results := analysis_results c4 @ [ud4]\<rparr>"
    using process_stargazer_enriched [OF assms(2) assms(1)] by blast
  obtain v1 tot where got: "get_starred_repos (login sg) w2 = Return st v1"
      and ud3: "ud3 = record_starred st tot ud2"
      and c3: "analysis_results c3 = analysis_results c2"
    using fetch_starred_result [OF starred] by blast
  obtain v where ud4: "ud4 = AList.update ''user_activity'' v ud3"
      and c4: "analysis_results c4 = analysis_results c3"
    using fetch_activity_keeps [OF act] by blast
  obtain v1 v2 where ud2: "ud2 = AList.update ''top_5_repos_descriptions'' v2
        (AList.update ''top_5_repos'' v1
           (update_from_details (d # ds) (default_user_data (login sg))))"
      and c2: "analysis_results c2 = analysis_results c"
    using fetch_owned_repos_keeps [OF owned] by blast
  have before: "field_of ud2 ''starred_repo_status'' = Some (PStr ''Error'')"
      "field_of ud2 ''total_starred_count'' = None"
    by (simp_all add: ud2 field_of_update update_from_details_fields)
  have status: "field_of ud4 ''starred_repo_status''
      = Some (PStr (case st of
                      None \<Rightarrow> ''Error''
                    | Some [] \<Rightarrow> ''Private (No Access to Starred Repo)''
                    | Some (x # xs) \<Rightarrow> ''Public (Has Starred Repos)''))"
    using record_starred_status [OF before(1), of st tot]
    by (simp add: ud4 ud3 field_of_update)
  have count: "field_of ud4 ''total_starred_count''
      = (case st of None \<Rightarrow> None | Some l \<Rightarrow> Some tot)"
    using record_starred_count [OF before(2), of st tot]
    by (simp add: ud4 ud3 field_of_update)
  have 1: "field_of ud4 ''starred_repo_status''
             = Some (PStr ''Private (No Access to Starred Repo)'') \<longleftrightarrow> st = Some []"
    unfolding status by (simp split: option.splits list.splits)
  have 2: "field_of ud4 ''starred_repo_status'' = Some (PStr ''Public (Has Starred Repos)'')
           \<longleftrightarrow> (\<exists>x xs. st = Some (x # xs))"
    unfolding status by (simp split: option.splits list.splits)
  have 3: "st = None \<longrightarrow> field_of ud4 ''starred_repo_status'' = Some (PStr ''Error'')"
    unfolding status by simp
  have 4: "field_of ud4 ''total_starred_count'' \<noteq> None \<longleftrightarrow> st \<noteq> None"
    unfolding count by (simp split: option.splits)
  have 5: "analysis_results c' = analysis_results c @ [ud4]"
    using c' c4 c3 c2 by simp
  show ?thesis
    using owned got 5 1 2 3 4 by blast
qed

lemma private_user_details:
  "get_user_details ''a'' private_user_world
   = Return (Some ((''public_repos'', PInt 0) # [(''followers'', PInt 2)]))
       (sleep (1 / 2) (answered (GetUser ''a'') private_user_world))"
  by code_simp

lemma private_user_processed:
  "process_stargazer \<lparr>login = ''a''\<rparr>
     \<lparr>analysis_results = [], user_all_starred_map = [], user_owned_repos_map = [],
      user_activity_map = []\<rparr>
     private_user_world
   = Return
       \<lparr>analysis_results =
          [[(''login'', PStr ''a''), (''created_at'', PStr ''N/A''),
            (''public_repos'', PInt 0), (''has_public_repos'', PBool False),
            (''followers'', PInt 2), (''following'', PInt 0),
            (''top_5_repos'', PStr ''N/A (0 public repos)''),
            (''top_5_repos_descriptions'', PStr ''N/A (0 public repos)''),
            (''starred_repo_status'', PStr ''Private (No Access to Starred Repo)''),
            (''starred_repos_sample'', PStr ''None''),
            (''starred_repos_descriptions'', PStr ''None''),
            (''user_activity'', PStr ''N/A (Private user)''),
            (''total_starred_count'', PInt 0)]],
        user_all_starred_map = [(''a'', [])], user_owned_repos_map = [],
        user_activity_map = []\<rparr>
       \<lparr>responses = [], now = 1,
        trace = [Request (GetUser ''a''), Sleep (1 / 2), Request (GetStarred ''a''),
                 Sleep (1 / 2), Request (GetStarredCount ''a''), Request (GetUser ''a'')]\<rparr>"
  by code_simp

theorem starred_status_follows_starred_repos_witness:
  "\<exists>ud2 c2 w2 starred_repos_list w3 user_data.
     fetch_owned_repos ''a''
       (update_from_details ((''public_repos'', PInt 0) # [(''followers'', PInt 2)])
          (default_user_data ''a''))
       \<lparr>analysis_results = [], user_all_starred_map = [], user_owned_repos_map = [],
        user_activity_map = []\<rparr>
       (sleep (1 / 2) (answered (GetUser ''a'') private_user_world))
     = Return (ud2, c2) w2
   \<and> get_starred_repos ''a'' w2 = Return starred_repos_list w3
   \<and> [[(''login'', PStr ''a''), (''created_at'', PStr ''N/A''),
        (''public_repos'', PInt 0), (''has_public_repos'', PBool False),
        (''followers'', PInt 2), (''following'', PInt 0),
        (''top_5_repos'', PStr ''N/A (0 public repos)''),
        (''top_5_repos_descriptions'', PStr ''N/A (0 public repos)''),
        (''starred_repo_status'', PStr ''Private (No Access to Starred Repo)''),
        (''starred_repos_sample'', PStr ''None''),
        (''starred_repos_descriptions'', PStr ''None''),
        (''user_activity'', PStr ''N/A (Private user)''),
        (''total_starred_count'', PInt 0)]] = [user_data]
   \<and> starred_repos_list = Some []"
  using starred_status_follows_starred_repos
      [where sg = "\<lparr>login = ''a''\<rparr>" and w = private_user_world
         and d = "(''public_repos'', PInt 0)" and ds = "[(''followers'', PInt 2)]"
         and ?w1.0 = "sleep (1 / 2) (answered (GetUser ''a'') private_user_world)"
         and c = "\<lparr>analysis_results = [], user_all_starred_map = [],
                   user_owned_repos_map = [], user_activity_map = []\<rparr>",
       OF _ private_user_processed]
    private_user_details
  by (auto simp: field_of_def)

subsection \<open>One record for each stargazer\<close>











end
